theory Spec2Isabelle
  imports Main "HOL-Library.Multiset" "HOL-Library.Product_Lexorder" "HOL-Library.Sublist"
begin

section \<open>Values of the host language\<close>

text \<open>
  A JavaScript number as the routes meet it: the result of \<^verbatim>\<open>parseInt\<close> on a path
  parameter is an integer or \<^verbatim>\<open>NaN\<close>. Fractional numbers are not represented: the
  only numeric field of a schema, \<^verbatim>\<open>messageId\<close>, is always overwritten with the result
  of \<^verbatim>\<open>parseInt\<close>.
\<close>

datatype number = NaN | Num int

text \<open>
  A request body (\<^verbatim>\<open>req.body\<close>, of type \<^verbatim>\<open>any\<close>): \<open>JUndefined\<close> when no body
  parser filled it, an object of strings for a multipart form, any JSON value otherwise.
\<close>

datatype jsvalue =
    JUndefined
  | JNull
  | JBool bool
  | JNum number
  | JStr string
  | JArr "jsvalue list"
  | JObj "(string \<times> jsvalue) list"

text \<open>An optional property of an object type: the key is absent (or \<^verbatim>\<open>undefined\<close>), or supplied.
  A nullable column or field is an \<open>option\<close>, with \<open>None\<close> for \<^verbatim>\<open>null\<close>.\<close>

datatype 'a optional = Undefined | Supplied 'a

text \<open>Milliseconds since the epoch.\<close>

type_synonym timestamp = int

text \<open>
  Everything the code can throw or pass to \<^verbatim>\<open>next(err)\<close>:
  a failed \<^verbatim>\<open>schema.parse\<close>, a statement the database rejects, the query builder's
  refusal of an update with no value to set, and the three rejections of the upload
  middleware.
\<close>

datatype error =
    ZodError
  | PgError
  | NoValuesToSet
  | LimitUnexpectedFile
  | OnlyImageFilesAllowed
  | LimitFileSize

definition andThen :: "error + 'a \<Rightarrow> ('a \<Rightarrow> error + 'b) \<Rightarrow> error + 'b" where
  "andThen r f = (case r of Inl e \<Rightarrow> Inl e | Inr a \<Rightarrow> f a)"

text \<open>What \<^verbatim>\<open>.set(...)\<close> does with one key of its argument: an absent key leaves the column.\<close>

definition assign :: "'a optional \<Rightarrow> 'a \<Rightarrow> 'a" where
  "assign new old = (case new of Undefined \<Rightarrow> old | Supplied v \<Rightarrow> v)"

section \<open>Schema\<close>

subsection \<open>site\_config\<close>

text \<open>
  The table has \<^verbatim>\<open>id\<close>, \<^verbatim>\<open>companyName\<close> (not null) and twenty-four nullable text
  columns, all declared alike; they are indexed by their names.
\<close>

datatype config_column =
    heroTitle | heroDescription | aboutTitle | aboutDescription
  | logoUrl | faviconUrl | primaryColor | secondaryColor | accentColor
  | textColor | backgroundColor | fontFamily
  | email | phone | address
  | facebookUrl | twitterUrl | instagramUrl | linkedinUrl
  | siteTitle | seoDescription | seoKeywords | metaDescription | metaKeywords

definition config_columns :: "config_column list" where
  "config_columns =
    [heroTitle, heroDescription, aboutTitle, aboutDescription,
     logoUrl, faviconUrl, primaryColor, secondaryColor, accentColor,
     textColor, backgroundColor, fontFamily,
     email, phone, address,
     facebookUrl, twitterUrl, instagramUrl, linkedinUrl,
     siteTitle, seoDescription, seoKeywords, metaDescription, metaKeywords]"

fun column_key :: "config_column \<Rightarrow> string" where
  "column_key heroTitle = ''heroTitle''"
| "column_key heroDescription = ''heroDescription''"
| "column_key aboutTitle = ''aboutTitle''"
| "column_key aboutDescription = ''aboutDescription''"
| "column_key logoUrl = ''logoUrl''"
| "column_key faviconUrl = ''faviconUrl''"
| "column_key primaryColor = ''primaryColor''"
| "column_key secondaryColor = ''secondaryColor''"
| "column_key accentColor = ''accentColor''"
| "column_key textColor = ''textColor''"
| "column_key backgroundColor = ''backgroundColor''"
| "column_key fontFamily = ''fontFamily''"
| "column_key email = ''email''"
| "column_key phone = ''phone''"
| "column_key address = ''address''"
| "column_key facebookUrl = ''facebookUrl''"
| "column_key twitterUrl = ''twitterUrl''"
| "column_key instagramUrl = ''instagramUrl''"
| "column_key linkedinUrl = ''linkedinUrl''"
| "column_key siteTitle = ''siteTitle''"
| "column_key seoDescription = ''seoDescription''"
| "column_key seoKeywords = ''seoKeywords''"
| "column_key metaDescription = ''metaDescription''"
| "column_key metaKeywords = ''metaKeywords''"

text \<open>The \<^verbatim>\<open>.default(...)\<close> of a column; a column without one defaults to \<^verbatim>\<open>NULL\<close>.\<close>

fun column_default :: "config_column \<Rightarrow> string option" where
  "column_default aboutTitle = Some ''Over Ons''"
| "column_default primaryColor = Some ''#2563eb''"
| "column_default secondaryColor = Some ''#1e40af''"
| "column_default accentColor = Some ''#059669''"
| "column_default textColor = Some ''#1f2937''"
| "column_default backgroundColor = Some ''#ffffff''"
| "column_default fontFamily = Some ''Inter''"
| "column_default _ = None"

record SiteConfig =
  config_id :: int
  companyName :: string
  config_text :: "config_column \<Rightarrow> string option"

text \<open>\<^verbatim>\<open>InsertSiteConfig\<close>: the company name, and each text column optional.\<close>

record InsertSiteConfig =
  new_companyName :: string
  new_text :: "config_column \<Rightarrow> string optional"

subsection \<open>projects, products, messages, message\_replies\<close>

text \<open>
  One record per table, a field per column (prefixed with the entity's name, since the
  tables share column names). A column without \<^verbatim>\<open>notNull()\<close> is an \<open>option\<close>.
\<close>

record Project =
  project_id :: int
  project_title :: string
  project_description :: string
  project_category :: string
  project_status :: string
  project_imageUrl :: "string option"
  project_createdAt :: "timestamp option"

record Product =
  product_id :: int
  product_title :: string
  product_description :: string
  product_price :: string
  product_imageUrl :: "string option"
  product_status :: string
  product_createdAt :: "timestamp option"

record Message =
  message_id :: int
  message_name :: string
  message_email :: string
  message_subject :: string
  message_message :: string
  message_isRead :: "bool option"
  message_createdAt :: "timestamp option"

record MessageReply =
  reply_id :: int
  reply_messageId :: "int option"
  reply_reply :: string
  reply_isFromAdmin :: "bool option"
  reply_createdAt :: "timestamp option"

text \<open>
  The insert types, as \<^verbatim>\<open>createInsertSchema(...).omit(...)\<close> infers them: a column that
  is not null and has no default is required, a column with a default is optional, a
  nullable column is optional and nullable. \<^verbatim>\<open>id\<close> and \<^verbatim>\<open>createdAt\<close> are omitted (and
  \<^verbatim>\<open>isRead\<close> for messages).
\<close>

record InsertProject =
  ip_title :: string
  ip_description :: string
  ip_category :: string
  ip_status :: "string optional"
  ip_imageUrl :: "string option optional"

record InsertProduct =
  id_title :: string
  id_description :: string
  id_price :: string
  id_imageUrl :: "string option optional"
  id_status :: "string optional"

record InsertMessage =
  im_name :: string
  im_email :: string
  im_subject :: string
  im_message :: string

record InsertMessageReply =
  ir_messageId :: "number option optional"
  ir_reply :: string
  ir_isFromAdmin :: "bool option optional"

text \<open>\<^verbatim>\<open>Partial<InsertProject>\<close> and \<^verbatim>\<open>Partial<InsertProduct>\<close>: every key optional.\<close>

record PartialInsertProject =
  pp_title :: "string optional"
  pp_description :: "string optional"
  pp_category :: "string optional"
  pp_status :: "string optional"
  pp_imageUrl :: "string option optional"

record PartialInsertProduct =
  pd_title :: "string optional"
  pd_description :: "string optional"
  pd_price :: "string optional"
  pd_imageUrl :: "string option optional"
  pd_status :: "string optional"

subsection \<open>The database\<close>

text \<open>
  The five tables the routes use, each a list of rows in storage order, and the sequence
  behind each \<^verbatim>\<open>serial\<close> column (its last value).
\<close>

record database =
  siteConfig :: "SiteConfig list"
  siteConfig_seq :: int
  projects :: "Project list"
  projects_seq :: int
  products :: "Product list"
  products_seq :: int
  messages :: "Message list"
  messages_seq :: int
  messageReplies :: "MessageReply list"
  messageReplies_seq :: int

definition empty_database :: database where
  "empty_database =
    \<lparr>siteConfig = [], siteConfig_seq = 0, projects = [], projects_seq = 0,
     products = [], products_seq = 0, messages = [], messages_seq = 0,
     messageReplies = [], messageReplies_seq = 0\<rparr>"

text \<open>
  A parameter compared with an \<^verbatim>\<open>integer\<close> column must be a 32-bit integer: the
  database rejects the statement otherwise (\<^verbatim>\<open>NaN\<close>, or a value out of range).
\<close>

fun pg_integer :: "number \<Rightarrow> error + int" where
  "pg_integer NaN = Inl PgError"
| "pg_integer (Num n) =
    (if - 2147483648 \<le> n \<and> n \<le> 2147483647 then Inr n else Inl PgError)"

text \<open>\<^verbatim>\<open>ORDER BY created_at\<close>: ascending, rows without a timestamp last, ties in storage order.\<close>

definition nulls_last :: "timestamp option \<Rightarrow> bool \<times> timestamp" where
  "nulls_last t = (case t of None \<Rightarrow> (True, 0) | Some v \<Rightarrow> (False, v))"

definition orderBy :: "('a \<Rightarrow> timestamp option) \<Rightarrow> 'a list \<Rightarrow> 'a list" where
  "orderBy column rows = sort_key (\<lambda>r. nulls_last (column r)) rows"

text \<open>The first row of a result, as \<^verbatim>\<open>const [row] = ...; return row || undefined\<close> reads it.\<close>

definition first_row :: "'a list \<Rightarrow> 'a option" where
  "first_row rows = (case rows of [] \<Rightarrow> None | r # _ \<Rightarrow> Some r)"

section \<open>Data-access layer\<close>

subsection \<open>Site configuration\<close>

definition getSiteConfig :: "database \<Rightarrow> SiteConfig option" where
  "getSiteConfig db = first_row (take 1 (siteConfig db))"

definition set_config :: "InsertSiteConfig \<Rightarrow> SiteConfig \<Rightarrow> SiteConfig" where
  "set_config config row =
    row\<lparr>companyName := new_companyName config,
        config_text := (\<lambda>c. assign (map_optional Some (new_text config c)) (config_text row c))\<rparr>"

definition values_config :: "int \<Rightarrow> InsertSiteConfig \<Rightarrow> SiteConfig" where
  "values_config next_id config =
    \<lparr>config_id = next_id,
     companyName = new_companyName config,
     config_text = (\<lambda>c. assign (map_optional Some (new_text config c)) (column_default c))\<rparr>"

definition updateSiteConfig :: "InsertSiteConfig \<Rightarrow> database \<Rightarrow> SiteConfig option \<times> database" where
  "updateSiteConfig config db =
    (case getSiteConfig db of
       Some existingConfig \<Rightarrow>
         (let hit = (\<lambda>r. config_id r = config_id existingConfig);
              rows = map (\<lambda>r. if hit r then set_config config r else r) (siteConfig db)
          in (first_row (filter hit rows), db\<lparr>siteConfig := rows\<rparr>))
     | None \<Rightarrow>
         (let next_id = siteConfig_seq db + 1;
              created = values_config next_id config
          in (Some created, db\<lparr>siteConfig := siteConfig db @ [created], siteConfig_seq := next_id\<rparr>)))"

subsection \<open>Projects\<close>

definition getProjects :: "database \<Rightarrow> Project list" where
  "getProjects db = orderBy project_createdAt (projects db)"

definition getProject :: "number \<Rightarrow> database \<Rightarrow> error + Project option" where
  "getProject i db =
    andThen (pg_integer i) (\<lambda>n.
      Inr (first_row (filter (\<lambda>r. project_id r = n) (projects db))))"

definition values_project :: "int \<Rightarrow> timestamp \<Rightarrow> InsertProject \<Rightarrow> Project" where
  "values_project next_id now project =
    \<lparr>project_id = next_id,
     project_title = ip_title project,
     project_description = ip_description project,
     project_category = ip_category project,
     project_status = assign (ip_status project) ''concept'',
     project_imageUrl = assign (ip_imageUrl project) None,
     project_createdAt = Some now\<rparr>"

text \<open>\<open>now\<close> is the database clock at the insert (\<^verbatim>\<open>defaultNow()\<close>).\<close>

definition createProject :: "timestamp \<Rightarrow> InsertProject \<Rightarrow> database \<Rightarrow> Project \<times> database" where
  "createProject now project db =
    (let next_id = projects_seq db + 1;
         created = values_project next_id now project
     in (created, db\<lparr>projects := projects db @ [created], projects_seq := next_id\<rparr>))"

definition set_project :: "PartialInsertProject \<Rightarrow> Project \<Rightarrow> Project" where
  "set_project project row =
    row\<lparr>project_title := assign (pp_title project) (project_title row),
        project_description := assign (pp_description project) (project_description row),
        project_category := assign (pp_category project) (project_category row),
        project_status := assign (pp_status project) (project_status row),
        project_imageUrl := assign (pp_imageUrl project) (project_imageUrl row)\<rparr>"

fun supplied :: "'a optional \<Rightarrow> bool" where
  "supplied Undefined = False"
| "supplied (Supplied _) = True"

definition project_values_to_set :: "PartialInsertProject \<Rightarrow> bool" where
  "project_values_to_set project =
    (supplied (pp_title project) \<or> supplied (pp_description project) \<or>
     supplied (pp_category project) \<or> supplied (pp_status project) \<or>
     supplied (pp_imageUrl project))"

text \<open>
  \<^verbatim>\<open>.set(project)\<close> throws when no key of its argument is defined; the statement then
  updates every row with the identifier and returns them, the first of which is the result.
\<close>

definition updateProject ::
  "number \<Rightarrow> PartialInsertProject \<Rightarrow> database \<Rightarrow> error + (Project option \<times> database)" where
  "updateProject i project db =
    (if \<not> project_values_to_set project then Inl NoValuesToSet
     else andThen (pg_integer i) (\<lambda>n.
       let hit = (\<lambda>r. project_id r = n);
           rows = map (\<lambda>r. if hit r then set_project project r else r) (projects db)
       in Inr (first_row (filter hit rows), db\<lparr>projects := rows\<rparr>)))"

definition deleteProject :: "number \<Rightarrow> database \<Rightarrow> error + (bool \<times> database)" where
  "deleteProject i db =
    andThen (pg_integer i) (\<lambda>n.
      let hit = (\<lambda>r. project_id r = n);
          rowCount = length (filter hit (projects db))
      in Inr (rowCount > 0, db\<lparr>projects := filter (\<lambda>r. \<not> hit r) (projects db)\<rparr>))"

subsection \<open>Products\<close>

definition getProducts :: "database \<Rightarrow> Product list" where
  "getProducts db = orderBy product_createdAt (products db)"

definition getProduct :: "number \<Rightarrow> database \<Rightarrow> error + Product option" where
  "getProduct i db =
    andThen (pg_integer i) (\<lambda>n.
      Inr (first_row (filter (\<lambda>r. product_id r = n) (products db))))"

definition values_product :: "int \<Rightarrow> timestamp \<Rightarrow> InsertProduct \<Rightarrow> Product" where
  "values_product next_id now product =
    \<lparr>product_id = next_id,
     product_title = id_title product,
     product_description = id_description product,
     product_price = id_price product,
     product_imageUrl = assign (id_imageUrl product) None,
     product_status = assign (id_status product) ''active'',
     product_createdAt = Some now\<rparr>"

definition createProduct :: "timestamp \<Rightarrow> InsertProduct \<Rightarrow> database \<Rightarrow> Product \<times> database" where
  "createProduct now product db =
    (let next_id = products_seq db + 1;
         created = values_product next_id now product
     in (created, db\<lparr>products := products db @ [created], products_seq := next_id\<rparr>))"

definition set_product :: "PartialInsertProduct \<Rightarrow> Product \<Rightarrow> Product" where
  "set_product product row =
    row\<lparr>product_title := assign (pd_title product) (product_title row),
        product_description := assign (pd_description product) (product_description row),
        product_price := assign (pd_price product) (product_price row),
        product_imageUrl := assign (pd_imageUrl product) (product_imageUrl row),
        product_status := assign (pd_status product) (product_status row)\<rparr>"

definition product_values_to_set :: "PartialInsertProduct \<Rightarrow> bool" where
  "product_values_to_set product =
    (supplied (pd_title product) \<or> supplied (pd_description product) \<or>
     supplied (pd_price product) \<or> supplied (pd_imageUrl product) \<or>
     supplied (pd_status product))"

definition updateProduct ::
  "number \<Rightarrow> PartialInsertProduct \<Rightarrow> database \<Rightarrow> error + (Product option \<times> database)" where
  "updateProduct i product db =
    (if \<not> product_values_to_set product then Inl NoValuesToSet
     else andThen (pg_integer i) (\<lambda>n.
       let hit = (\<lambda>r. product_id r = n);
           rows = map (\<lambda>r. if hit r then set_product product r else r) (products db)
       in Inr (first_row (filter hit rows), db\<lparr>products := rows\<rparr>)))"

definition deleteProduct :: "number \<Rightarrow> database \<Rightarrow> error + (bool \<times> database)" where
  "deleteProduct i db =
    andThen (pg_integer i) (\<lambda>n.
      let hit = (\<lambda>r. product_id r = n);
          rowCount = length (filter hit (products db))
      in Inr (rowCount > 0, db\<lparr>products := filter (\<lambda>r. \<not> hit r) (products db)\<rparr>))"

subsection \<open>Messages\<close>

definition getMessages :: "database \<Rightarrow> Message list" where
  "getMessages db = orderBy message_createdAt (messages db)"

definition getMessage :: "number \<Rightarrow> database \<Rightarrow> error + Message option" where
  "getMessage i db =
    andThen (pg_integer i) (\<lambda>n.
      Inr (first_row (filter (\<lambda>r. message_id r = n) (messages db))))"

definition values_message :: "int \<Rightarrow> timestamp \<Rightarrow> InsertMessage \<Rightarrow> Message" where
  "values_message next_id now message =
    \<lparr>message_id = next_id,
     message_name = im_name message,
     message_email = im_email message,
     message_subject = im_subject message,
     message_message = im_message message,
     message_isRead = Some False,
     message_createdAt = Some now\<rparr>"

definition createMessage :: "timestamp \<Rightarrow> InsertMessage \<Rightarrow> database \<Rightarrow> Message \<times> database" where
  "createMessage now message db =
    (let next_id = messages_seq db + 1;
         created = values_message next_id now message
     in (created, db\<lparr>messages := messages db @ [created], messages_seq := next_id\<rparr>))"

text \<open>\<^verbatim>\<open>rowCount\<close> counts the rows the statement matched, whatever their flag was.\<close>

definition markMessageAsRead :: "number \<Rightarrow> database \<Rightarrow> error + (bool \<times> database)" where
  "markMessageAsRead i db =
    andThen (pg_integer i) (\<lambda>n.
      let hit = (\<lambda>r. message_id r = n);
          rows = map (\<lambda>r. if hit r then r\<lparr>message_isRead := Some True\<rparr> else r) (messages db);
          rowCount = length (filter hit (messages db))
      in Inr (rowCount > 0, db\<lparr>messages := rows\<rparr>))"

subsection \<open>Message replies\<close>

definition getMessageReplies :: "number \<Rightarrow> database \<Rightarrow> error + MessageReply list" where
  "getMessageReplies messageId db =
    andThen (pg_integer messageId) (\<lambda>n.
      Inr (orderBy reply_createdAt
             (filter (\<lambda>r. reply_messageId r = Some n) (messageReplies db))))"

text \<open>The value bound for the \<^verbatim>\<open>message_id\<close> column: \<^verbatim>\<open>NULL\<close> when absent or null.\<close>

fun reply_message_id :: "number option optional \<Rightarrow> error + int option" where
  "reply_message_id Undefined = Inr None"
| "reply_message_id (Supplied None) = Inr None"
| "reply_message_id (Supplied (Some v)) = andThen (pg_integer v) (\<lambda>n. Inr (Some n))"

text \<open>\<^verbatim>\<open>references(() => messages.id)\<close>: a reply's message, when it names one, is stored.\<close>

definition references_message :: "database \<Rightarrow> int option \<Rightarrow> bool" where
  "references_message db m =
    (case m of None \<Rightarrow> True | Some n \<Rightarrow> n \<in> set (map message_id (messages db)))"

definition values_reply :: "int \<Rightarrow> timestamp \<Rightarrow> int option \<Rightarrow> InsertMessageReply \<Rightarrow> MessageReply" where
  "values_reply next_id now m reply =
    \<lparr>reply_id = next_id,
     reply_messageId = m,
     reply_reply = ir_reply reply,
     reply_isFromAdmin = assign (ir_isFromAdmin reply) (Some True),
     reply_createdAt = Some now\<rparr>"

text \<open>
  A parameter that is no integer fails the statement before it runs; a violated foreign
  key fails it after the sequence has advanced.
\<close>

definition createMessageReply ::
  "timestamp \<Rightarrow> InsertMessageReply \<Rightarrow> database \<Rightarrow> (error + MessageReply) \<times> database" where
  "createMessageReply now reply db =
    (case reply_message_id (ir_messageId reply) of
       Inl e \<Rightarrow> (Inl e, db)
     | Inr m \<Rightarrow>
         (let next_id = messageReplies_seq db + 1;
              created = values_reply next_id now m reply
          in if references_message db m
             then (Inr created,
                   db\<lparr>messageReplies := messageReplies db @ [created],
                      messageReplies_seq := next_id\<rparr>)
             else (Inl PgError, db\<lparr>messageReplies_seq := next_id\<rparr>)))"

subsection \<open>Seeding at construction\<close>

text \<open>
  The constructor of \<^verbatim>\<open>DatabaseStorage\<close> calls \<^verbatim>\<open>initializeDefaults\<close>. Strings are
  UTF-8: the euro sign and the e with diaeresis are written as their bytes.
\<close>

fun default_text :: "config_column \<Rightarrow> string optional" where
  "default_text heroTitle = Supplied ''Welkom bij Voorbeeld Bedrijf BV''"
| "default_text heroDescription = Supplied
     ''Wij leveren professionele diensten en hoogwaardige producten die uw verwachtingen overtreffen.''"
| "default_text aboutTitle = Supplied ''Over Ons''"
| "default_text aboutDescription = Supplied
     (''Met meer dan 10 jaar ervaring in de branche, zijn wij uw betrouwbare partner voor innovatieve oplossingen. '' @
      ''Ons toegewijde team van experts werkt samen om uw visie werkelijkheid te maken en uw bedrijfsdoelen te overtreffen.'')"
| "default_text primaryColor = Supplied ''#2563eb''"
| "default_text email = Supplied ''info@voorbeeldbedrijf.nl''"
| "default_text phone = Supplied ''+31 20 123 4567''"
| "default_text address = Supplied ''Hoofdstraat 123, 1234 AB Amsterdam''"
| "default_text metaDescription = Supplied
     (''Voorbeeld Bedrijf BV - Professionele diensten en hoogwaardige producten. '' @
      ''Meer dan 10 jaar ervaring in innovatieve oplossingen.'')"
| "default_text metaKeywords = Supplied
     ''professionele diensten, hoogwaardige producten, innovatieve oplossingen, betrouwbare partner''"
| "default_text _ = Undefined"

definition defaultConfig :: InsertSiteConfig where
  "defaultConfig = \<lparr>new_companyName = ''Voorbeeld Bedrijf BV'', new_text = default_text\<rparr>"

definition demoProjects :: "InsertProject list" where
  "demoProjects =
    [\<lparr>ip_title = ''Modern Kantoorgebouw Amsterdam'',
      ip_description = ''Ontwerp en realisatie van een modern kantoorgebouw met duurzame materialen en energy-efficient systemen.'',
      ip_category = ''architectuur'',
      ip_status = Supplied ''completed'',
      ip_imageUrl = Supplied (Some ''https://images.unsplash.com/photo-1486406146926-c627a92ad1ab?w=800&h=600&fit=crop'')\<rparr>,
     \<lparr>ip_title = ''Luxe Woonhuis Interieur'',
      ip_description = ''Complete interieurinrichting van een luxe woonhuis met moderne elementen en klassieke accenten.'',
      ip_category = ''interieur'',
      ip_status = Supplied ''completed'',
      ip_imageUrl = Supplied (Some ''https://images.unsplash.com/photo-1586023492125-27b2c045efd7?w=800&h=600&fit=crop'')\<rparr>,
     \<lparr>ip_title = ''E-commerce Platform'',
      ip_description =
        ''Ontwikkeling van een volledig responsive e-commerce platform met moderne technologie'' @
        [CHR 0xC3, CHR 0xAB] @ ''n.'',
      ip_category = ''web'',
      ip_status = Supplied ''progress'',
      ip_imageUrl = Supplied (Some ''https://images.unsplash.com/photo-1460925895917-afdab827c52f?w=800&h=600&fit=crop'')\<rparr>]"

definition euro :: string where
  "euro = [CHR 0xE2, CHR 0x82, CHR 0xAC]"

definition demoProducts :: "InsertProduct list" where
  "demoProducts =
    [\<lparr>id_title = ''Premium Consultancy Pakket'',
      id_description = ''Uitgebreide consultancy diensten voor uw project van start tot finish.'',
      id_price = euro @ ''2.500'',
      id_imageUrl = Supplied (Some ''https://images.unsplash.com/photo-1552664730-d307ca884978?w=800&h=600&fit=crop''),
      id_status = Supplied ''active''\<rparr>,
     \<lparr>id_title = ''Design Workshop'',
      id_description = ''Interactieve workshop over modern design principes en trends.'',
      id_price = euro @ ''450'',
      id_imageUrl = Supplied (Some ''https://images.unsplash.com/photo-1542744173-8e7e53415bb0?w=800&h=600&fit=crop''),
      id_status = Supplied ''active''\<rparr>,
     \<lparr>id_title = ''Digitale Strategie Audit'',
      id_description = ''Complete audit van uw huidige digitale strategie met concrete verbetervoorstellen.'',
      id_price = euro @ ''1.200'',
      id_imageUrl = Supplied (Some ''https://images.unsplash.com/photo-1551288049-bebda4e38f71?w=800&h=600&fit=crop''),
      id_status = Supplied ''active''\<rparr>]"

text \<open>
  The two \<^verbatim>\<open>for\<close> loops. \<open>clock k\<close> is the database clock at the \<open>k\<close>-th insert of
  the routine.
\<close>

fun createProjects :: "(nat \<Rightarrow> timestamp) \<Rightarrow> nat \<Rightarrow> InsertProject list \<Rightarrow> database \<Rightarrow> database" where
  "createProjects clock k [] db = db"
| "createProjects clock k (project # rest) db =
    createProjects clock (Suc k) rest (snd (createProject (clock k) project db))"

fun createProducts :: "(nat \<Rightarrow> timestamp) \<Rightarrow> nat \<Rightarrow> InsertProduct list \<Rightarrow> database \<Rightarrow> database" where
  "createProducts clock k [] db = db"
| "createProducts clock k (product # rest) db =
    createProducts clock (Suc k) rest (snd (createProduct (clock k) product db))"

definition initializeDefaults :: "(nat \<Rightarrow> timestamp) \<Rightarrow> database \<Rightarrow> database" where
  "initializeDefaults clock db =
    (let db1 = (case getSiteConfig db of
                  None \<Rightarrow> snd (updateSiteConfig defaultConfig db)
                | Some existingConfig \<Rightarrow> db);
         db2 = (if length (getProjects db1) = 0
                then createProjects clock 0 demoProjects db1 else db1);
         db3 = (if length (getProducts db2) = 0
                then createProducts clock (length demoProjects) demoProducts db2 else db2)
     in db3)"

section \<open>Validation schemas\<close>

text \<open>A property of an object: \<^verbatim>\<open>undefined\<close> when the key is absent.\<close>

definition property :: "(string \<times> jsvalue) list \<Rightarrow> string \<Rightarrow> jsvalue" where
  "property obj key = (case map_of obj key of None \<Rightarrow> JUndefined | Some v \<Rightarrow> v)"

fun z_string :: "jsvalue \<Rightarrow> error + string" where
  "z_string (JStr s) = Inr s"
| "z_string _ = Inl ZodError"

fun z_boolean :: "jsvalue \<Rightarrow> error + bool" where
  "z_boolean (JBool b) = Inr b"
| "z_boolean _ = Inl ZodError"

fun z_number :: "jsvalue \<Rightarrow> error + number" where
  "z_number (JNum (Num n)) = Inr (Num n)"
| "z_number _ = Inl ZodError"

fun z_optional :: "(jsvalue \<Rightarrow> error + 'a) \<Rightarrow> jsvalue \<Rightarrow> error + 'a optional" where
  "z_optional inner JUndefined = Inr Undefined"
| "z_optional inner v = andThen (inner v) (\<lambda>a. Inr (Supplied a))"

fun z_nullable :: "(jsvalue \<Rightarrow> error + 'a) \<Rightarrow> jsvalue \<Rightarrow> error + 'a option" where
  "z_nullable inner JNull = Inr None"
| "z_nullable inner v = andThen (inner v) (\<lambda>a. Inr (Some a))"

definition accepts :: "(jsvalue \<Rightarrow> error + 'a) \<Rightarrow> jsvalue \<Rightarrow> bool" where
  "accepts schema v = (case schema v of Inl e \<Rightarrow> False | Inr a \<Rightarrow> True)"

text \<open>
  \<^verbatim>\<open>insertSiteConfigSchema\<close>: \<^verbatim>\<open>companyName\<close> keeps the string schema of its column
  (not null, no default); every other key is overridden by \<^verbatim>\<open>z.string().optional()\<close>.
  Keys the schema does not name are dropped.
\<close>

definition insertSiteConfigSchema :: "jsvalue \<Rightarrow> error + InsertSiteConfig" where
  "insertSiteConfigSchema input =
    (case input of
       JObj obj \<Rightarrow>
         andThen (z_string (property obj ''companyName'')) (\<lambda>name.
           if list_all (\<lambda>c. accepts (z_optional z_string) (property obj (column_key c))) config_columns
           then Inr \<lparr>new_companyName = name,
                     new_text = (\<lambda>c. case z_optional z_string (property obj (column_key c)) of
                                        Inr v \<Rightarrow> v | Inl e \<Rightarrow> Undefined)\<rparr>
           else Inl ZodError)
     | _ \<Rightarrow> Inl ZodError)"

definition insertProjectSchema :: "jsvalue \<Rightarrow> error + InsertProject" where
  "insertProjectSchema input =
    (case input of
       JObj obj \<Rightarrow>
         andThen (z_string (property obj ''title'')) (\<lambda>t.
         andThen (z_string (property obj ''description'')) (\<lambda>d.
         andThen (z_string (property obj ''category'')) (\<lambda>c.
         andThen (z_optional z_string (property obj ''status'')) (\<lambda>s.
         andThen (z_optional (z_nullable z_string) (property obj ''imageUrl'')) (\<lambda>i.
           Inr \<lparr>ip_title = t, ip_description = d, ip_category = c,
                ip_status = s, ip_imageUrl = i\<rparr>)))))
     | _ \<Rightarrow> Inl ZodError)"

definition insertProjectSchema_partial :: "jsvalue \<Rightarrow> error + PartialInsertProject" where
  "insertProjectSchema_partial input =
    (case input of
       JObj obj \<Rightarrow>
         andThen (z_optional z_string (property obj ''title'')) (\<lambda>t.
         andThen (z_optional z_string (property obj ''description'')) (\<lambda>d.
         andThen (z_optional z_string (property obj ''category'')) (\<lambda>c.
         andThen (z_optional z_string (property obj ''status'')) (\<lambda>s.
         andThen (z_optional (z_nullable z_string) (property obj ''imageUrl'')) (\<lambda>i.
           Inr \<lparr>pp_title = t, pp_description = d, pp_category = c,
                pp_status = s, pp_imageUrl = i\<rparr>)))))
     | _ \<Rightarrow> Inl ZodError)"

definition insertProductSchema :: "jsvalue \<Rightarrow> error + InsertProduct" where
  "insertProductSchema input =
    (case input of
       JObj obj \<Rightarrow>
         andThen (z_string (property obj ''title'')) (\<lambda>t.
         andThen (z_string (property obj ''description'')) (\<lambda>d.
         andThen (z_string (property obj ''price'')) (\<lambda>p.
         andThen (z_optional (z_nullable z_string) (property obj ''imageUrl'')) (\<lambda>i.
         andThen (z_optional z_string (property obj ''status'')) (\<lambda>s.
           Inr \<lparr>id_title = t, id_description = d, id_price = p,
                id_imageUrl = i, id_status = s\<rparr>)))))
     | _ \<Rightarrow> Inl ZodError)"

definition insertProductSchema_partial :: "jsvalue \<Rightarrow> error + PartialInsertProduct" where
  "insertProductSchema_partial input =
    (case input of
       JObj obj \<Rightarrow>
         andThen (z_optional z_string (property obj ''title'')) (\<lambda>t.
         andThen (z_optional z_string (property obj ''description'')) (\<lambda>d.
         andThen (z_optional z_string (property obj ''price'')) (\<lambda>p.
         andThen (z_optional (z_nullable z_string) (property obj ''imageUrl'')) (\<lambda>i.
         andThen (z_optional z_string (property obj ''status'')) (\<lambda>s.
           Inr \<lparr>pd_title = t, pd_description = d, pd_price = p,
                pd_imageUrl = i, pd_status = s\<rparr>)))))
     | _ \<Rightarrow> Inl ZodError)"

definition insertMessageSchema :: "jsvalue \<Rightarrow> error + InsertMessage" where
  "insertMessageSchema input =
    (case input of
       JObj obj \<Rightarrow>
         andThen (z_string (property obj ''name'')) (\<lambda>n.
         andThen (z_string (property obj ''email'')) (\<lambda>e.
         andThen (z_string (property obj ''subject'')) (\<lambda>s.
         andThen (z_string (property obj ''message'')) (\<lambda>m.
           Inr \<lparr>im_name = n, im_email = e, im_subject = s, im_message = m\<rparr>))))
     | _ \<Rightarrow> Inl ZodError)"

definition insertMessageReplySchema :: "jsvalue \<Rightarrow> error + InsertMessageReply" where
  "insertMessageReplySchema input =
    (case input of
       JObj obj \<Rightarrow>
         andThen (z_optional (z_nullable z_number) (property obj ''messageId'')) (\<lambda>m.
         andThen (z_string (property obj ''reply'')) (\<lambda>r.
         andThen (z_optional (z_nullable z_boolean) (property obj ''isFromAdmin'')) (\<lambda>a.
           Inr \<lparr>ir_messageId = m, ir_reply = r, ir_isFromAdmin = a\<rparr>)))
     | _ \<Rightarrow> Inl ZodError)"

section \<open>Route layer\<close>

subsection \<open>Requests and responses\<close>

text \<open>
  The file part of a multipart request: the name of its form field, its content type, its
  length in bytes, and the name the upload middleware generates for it on disk.
\<close>

record File =
  file_fieldname :: string
  file_mimetype :: string
  file_size :: nat
  file_filename :: string

text \<open>
  What a handler reads of a request: \<open>req_id\<close> is \<^verbatim>\<open>parseInt(req.params.id)\<close>,
  \<open>req_body\<close> is \<^verbatim>\<open>req.body\<close>, \<open>req_image\<close> the file part the request carries, if any.
\<close>

record request =
  req_id :: number
  req_body :: jsvalue
  req_image :: "File option"

datatype payload =
    Notice string
  | ConfigJson "SiteConfig option"
  | ProjectJson Project
  | ProjectsJson "Project list"
  | ProductJson Product
  | ProductsJson "Product list"
  | MessageJson Message
  | MessagesJson "Message list"
  | ReplyJson MessageReply
  | RepliesJson "MessageReply list"
  | ErrorPage error

record response =
  res_status :: nat
  res_json :: payload

text \<open>\<^verbatim>\<open>res.json(v)\<close> answers 200; \<^verbatim>\<open>res.status(n).json({ message })\<close> answers \<open>n\<close>.\<close>

definition json :: "payload \<Rightarrow> response" where
  "json v = \<lparr>res_status = 200, res_json = v\<rparr>"

definition status_json :: "nat \<Rightarrow> string \<Rightarrow> response" where
  "status_json n message = \<lparr>res_status = n, res_json = Notice message\<rparr>"

subsection \<open>The upload middleware\<close>

definition fileSize :: nat where
  "fileSize = 5 * 1024 * 1024"

definition fileFilter :: "File \<Rightarrow> error + bool" where
  "fileFilter file =
    (if prefix ''image/'' (file_mimetype file) then Inr True else Inl OnlyImageFilesAllowed)"

text \<open>
  \<^verbatim>\<open>upload.single('image')\<close>: a file under another field than \<^verbatim>\<open>image\<close> is unexpected;
  the filter then sees the part's header; the size limit applies while the part is read,
  and is reached when the bytes read equal \<open>fileSize\<close>. On success the file is
  \<^verbatim>\<open>req.file\<close>; an error goes to \<^verbatim>\<open>next(err)\<close> and the route's handler does not run.
\<close>

definition upload_single :: "File option \<Rightarrow> error + File option" where
  "upload_single part =
    (case part of
       None \<Rightarrow> Inr None
     | Some file \<Rightarrow>
         if file_fieldname file \<noteq> ''image'' then Inl LimitUnexpectedFile
         else andThen (fileFilter file) (\<lambda>ok.
           if file_size file \<ge> fileSize then Inl LimitFileSize else Inr (Some file)))"

text \<open>
  \<^verbatim>\<open>registerRoutes\<close> receives the application and registers no error-handling
  middleware on it: what answers an error passed to \<^verbatim>\<open>next\<close> is the application's, a
  parameter of the routes below. \<open>finalhandler\<close> is the framework's own answer when the
  application registers none: an error that carries no status is answered with 500.
\<close>

type_synonym error_handler = "error \<Rightarrow> response"

definition finalhandler :: error_handler where
  "finalhandler err = \<lparr>res_status = 500, res_json = ErrorPage err\<rparr>"

subsection \<open>Site configuration\<close>

definition get_config :: "request \<Rightarrow> database \<Rightarrow> response \<times> database" where
  "get_config req db = (json (ConfigJson (getSiteConfig db)), db)"

definition put_config :: "request \<Rightarrow> database \<Rightarrow> response \<times> database" where
  "put_config req db =
    (case insertSiteConfigSchema (req_body req) of
       Inl e \<Rightarrow> (status_json 400 ''Invalid configuration data'', db)
     | Inr validatedConfig \<Rightarrow>
         (let (config, db') = updateSiteConfig validatedConfig db
          in (json (ConfigJson config), db')))"

subsection \<open>Projects\<close>

definition get_projects :: "request \<Rightarrow> database \<Rightarrow> response \<times> database" where
  "get_projects req db = (json (ProjectsJson (getProjects db)), db)"

definition get_project :: "request \<Rightarrow> database \<Rightarrow> response \<times> database" where
  "get_project req db =
    (case getProject (req_id req) db of
       Inl e \<Rightarrow> (status_json 500 ''Failed to fetch project'', db)
     | Inr None \<Rightarrow> (status_json 404 ''Project not found'', db)
     | Inr (Some project) \<Rightarrow> (json (ProjectJson project), db))"

definition uploads_url :: "File \<Rightarrow> string" where
  "uploads_url file = ''/uploads/'' @ file_filename file"

definition post_projects ::
  "error_handler \<Rightarrow> timestamp \<Rightarrow> request \<Rightarrow> database \<Rightarrow> response \<times> database" where
  "post_projects onError now req db =
    (case upload_single (req_image req) of
       Inl err \<Rightarrow> (onError err, db)
     | Inr file \<Rightarrow>
         (case insertProjectSchema (req_body req) of
            Inl e \<Rightarrow> (status_json 400 ''Invalid project data'', db)
          | Inr parsed \<Rightarrow>
              (let projectData =
                     (case file of
                        Some f \<Rightarrow> parsed\<lparr>ip_imageUrl := Supplied (Some (uploads_url f))\<rparr>
                      | None \<Rightarrow> parsed);
                   (project, db') = createProject now projectData db
               in (json (ProjectJson project), db'))))"

definition put_project ::
  "error_handler \<Rightarrow> request \<Rightarrow> database \<Rightarrow> response \<times> database" where
  "put_project onError req db =
    (case upload_single (req_image req) of
       Inl err \<Rightarrow> (onError err, db)
     | Inr file \<Rightarrow>
         (case insertProjectSchema_partial (req_body req) of
            Inl e \<Rightarrow> (status_json 400 ''Invalid project data'', db)
          | Inr parsed \<Rightarrow>
              (let projectData =
                     (case file of
                        Some f \<Rightarrow> parsed\<lparr>pp_imageUrl := Supplied (Some (uploads_url f))\<rparr>
                      | None \<Rightarrow> parsed)
               in case updateProject (req_id req) projectData db of
                    Inl e \<Rightarrow> (status_json 400 ''Invalid project data'', db)
                  | Inr (None, db') \<Rightarrow> (status_json 404 ''Project not found'', db')
                  | Inr (Some project, db') \<Rightarrow> (json (ProjectJson project), db'))))"

definition delete_project :: "request \<Rightarrow> database \<Rightarrow> response \<times> database" where
  "delete_project req db =
    (case deleteProject (req_id req) db of
       Inl e \<Rightarrow> (status_json 500 ''Failed to delete project'', db)
     | Inr (deleted, db') \<Rightarrow>
         (if \<not> deleted then (status_json 404 ''Project not found'', db')
          else (json (Notice ''Project deleted successfully''), db')))"

subsection \<open>Products\<close>

definition get_products :: "request \<Rightarrow> database \<Rightarrow> response \<times> database" where
  "get_products req db = (json (ProductsJson (getProducts db)), db)"

definition get_product :: "request \<Rightarrow> database \<Rightarrow> response \<times> database" where
  "get_product req db =
    (case getProduct (req_id req) db of
       Inl e \<Rightarrow> (status_json 500 ''Failed to fetch product'', db)
     | Inr None \<Rightarrow> (status_json 404 ''Product not found'', db)
     | Inr (Some product) \<Rightarrow> (json (ProductJson product), db))"

definition post_products ::
  "error_handler \<Rightarrow> timestamp \<Rightarrow> request \<Rightarrow> database \<Rightarrow> response \<times> database" where
  "post_products onError now req db =
    (case upload_single (req_image req) of
       Inl err \<Rightarrow> (onError err, db)
     | Inr file \<Rightarrow>
         (case insertProductSchema (req_body req) of
            Inl e \<Rightarrow> (status_json 400 ''Invalid product data'', db)
          | Inr parsed \<Rightarrow>
              (let productData =
                     (case file of
                        Some f \<Rightarrow> parsed\<lparr>id_imageUrl := Supplied (Some (uploads_url f))\<rparr>
                      | None \<Rightarrow> parsed);
                   (product, db') = createProduct now productData db
               in (json (ProductJson product), db'))))"

definition put_product ::
  "error_handler \<Rightarrow> request \<Rightarrow> database \<Rightarrow> response \<times> database" where
  "put_product onError req db =
    (case upload_single (req_image req) of
       Inl err \<Rightarrow> (onError err, db)
     | Inr file \<Rightarrow>
         (case insertProductSchema_partial (req_body req) of
            Inl e \<Rightarrow> (status_json 400 ''Invalid product data'', db)
          | Inr parsed \<Rightarrow>
              (let productData =
                     (case file of
                        Some f \<Rightarrow> parsed\<lparr>pd_imageUrl := Supplied (Some (uploads_url f))\<rparr>
                      | None \<Rightarrow> parsed)
               in case updateProduct (req_id req) productData db of
                    Inl e \<Rightarrow> (status_json 400 ''Invalid product data'', db)
                  | Inr (None, db') \<Rightarrow> (status_json 404 ''Product not found'', db')
                  | Inr (Some product, db') \<Rightarrow> (json (ProductJson product), db'))))"

definition delete_product :: "request \<Rightarrow> database \<Rightarrow> response \<times> database" where
  "delete_product req db =
    (case deleteProduct (req_id req) db of
       Inl e \<Rightarrow> (status_json 500 ''Failed to delete product'', db)
     | Inr (deleted, db') \<Rightarrow>
         (if \<not> deleted then (status_json 404 ''Product not found'', db')
          else (json (Notice ''Product deleted successfully''), db')))"

subsection \<open>Messages\<close>

definition get_messages :: "request \<Rightarrow> database \<Rightarrow> response \<times> database" where
  "get_messages req db = (json (MessagesJson (getMessages db)), db)"

definition get_message :: "request \<Rightarrow> database \<Rightarrow> response \<times> database" where
  "get_message req db =
    (case getMessage (req_id req) db of
       Inl e \<Rightarrow> (status_json 500 ''Failed to fetch message'', db)
     | Inr None \<Rightarrow> (status_json 404 ''Message not found'', db)
     | Inr (Some message) \<Rightarrow> (json (MessageJson message), db))"

definition post_messages :: "timestamp \<Rightarrow> request \<Rightarrow> database \<Rightarrow> response \<times> database" where
  "post_messages now req db =
    (case insertMessageSchema (req_body req) of
       Inl e \<Rightarrow> (status_json 400 ''Invalid message data'', db)
     | Inr messageData \<Rightarrow>
         (let (message, db') = createMessage now messageData db
          in (json (MessageJson message), db')))"

definition put_message_read :: "request \<Rightarrow> database \<Rightarrow> response \<times> database" where
  "put_message_read req db =
    (case markMessageAsRead (req_id req) db of
       Inl e \<Rightarrow> (status_json 500 ''Failed to mark message as read'', db)
     | Inr (marked, db') \<Rightarrow>
         (if \<not> marked then (status_json 404 ''Message not found'', db')
          else (json (Notice ''Message marked as read''), db')))"

subsection \<open>Message replies\<close>

definition get_message_replies :: "request \<Rightarrow> database \<Rightarrow> response \<times> database" where
  "get_message_replies req db =
    (case getMessageReplies (req_id req) db of
       Inl e \<Rightarrow> (status_json 500 ''Failed to fetch message replies'', db)
     | Inr replies \<Rightarrow> (json (RepliesJson replies), db))"

text \<open>
  The object literal \<^verbatim>\<open>{ ...req.body, messageId }\<close>: the own enumerable properties of
  the body (those of an array or a string are its indices), then the key \<^verbatim>\<open>messageId\<close>,
  which replaces one the body had.
\<close>

fun decimal :: "nat \<Rightarrow> string" where
  "decimal n =
    (if n < 10 then [char_of (48 + n)]
     else decimal (n div 10) @ [char_of (48 + n mod 10)])"

declare decimal.simps [simp del]

definition indexed :: "jsvalue list \<Rightarrow> (string \<times> jsvalue) list" where
  "indexed vs = zip (map decimal [0..<length vs]) vs"

fun spread :: "jsvalue \<Rightarrow> (string \<times> jsvalue) list" where
  "spread (JObj obj) = obj"
| "spread (JArr vs) = indexed vs"
| "spread (JStr s) = indexed (map (\<lambda>c. JStr [c]) s)"
| "spread _ = []"

definition with_key :: "string \<Rightarrow> jsvalue \<Rightarrow> (string \<times> jsvalue) list \<Rightarrow> (string \<times> jsvalue) list" where
  "with_key key v obj = filter (\<lambda>kv. fst kv \<noteq> key) obj @ [(key, v)]"

definition post_message_replies :: "timestamp \<Rightarrow> request \<Rightarrow> database \<Rightarrow> response \<times> database" where
  "post_message_replies now req db =
    (let messageId = req_id req
     in case insertMessageReplySchema
               (JObj (with_key ''messageId'' (JNum messageId) (spread (req_body req)))) of
          Inl e \<Rightarrow> (status_json 400 ''Invalid reply data'', db)
        | Inr replyData \<Rightarrow>
            (case createMessageReply now replyData db of
               (Inl e, db') \<Rightarrow> (status_json 400 ''Invalid reply data'', db')
             | (Inr reply, db') \<Rightarrow> (json (ReplyJson reply), db')))"

subsection \<open>The registered routes\<close>

text \<open>
  The routes \<^verbatim>\<open>registerRoutes\<close> registers under \<^verbatim>\<open>/api\<close> (the responder for uploaded
  files reads the file system only and is left out). \<open>now\<close> is the database clock during
  the request.
\<close>

datatype route =
    GET_config | PUT_config
  | GET_projects | GET_project | POST_projects | PUT_project | DELETE_project
  | GET_products | GET_product | POST_products | PUT_product | DELETE_product
  | GET_messages | GET_message | POST_messages | PUT_message_read
  | GET_message_replies | POST_message_replies

fun handle ::
  "error_handler \<Rightarrow> timestamp \<Rightarrow> route \<Rightarrow> request \<Rightarrow> database \<Rightarrow> response \<times> database" where
  "handle onError now GET_config = get_config"
| "handle onError now PUT_config = put_config"
| "handle onError now GET_projects = get_projects"
| "handle onError now GET_project = get_project"
| "handle onError now POST_projects = post_projects onError now"
| "handle onError now PUT_project = put_project onError"
| "handle onError now DELETE_project = delete_project"
| "handle onError now GET_products = get_products"
| "handle onError now GET_product = get_product"
| "handle onError now POST_products = post_products onError now"
| "handle onError now PUT_product = put_product onError"
| "handle onError now DELETE_product = delete_product"
| "handle onError now GET_messages = get_messages"
| "handle onError now GET_message = get_message"
| "handle onError now POST_messages = post_messages now"
| "handle onError now PUT_message_read = put_message_read"
| "handle onError now GET_message_replies = get_message_replies"
| "handle onError now POST_message_replies = post_message_replies now"

section \<open>Properties of results and states\<close>

text \<open>
  Ascending creation timestamps, as a relation between an earlier and a later row of a result:
  the earlier timestamp first, and a row without a timestamp after every row with one.
\<close>

definition created_le :: "timestamp option \<Rightarrow> timestamp option \<Rightarrow> bool" where
  "created_le a b =
    (case b of None \<Rightarrow> True | Some t \<Rightarrow> (case a of None \<Rightarrow> False | Some s \<Rightarrow> s \<le> t))"

text \<open>The constraint the schema declares on \<^verbatim>\<open>message_replies.message_id\<close>, over the whole table.\<close>

definition foreign_keys_hold :: "database \<Rightarrow> bool" where
  "foreign_keys_hold db =
    list_all (\<lambda>r. references_message db (reply_messageId r)) (messageReplies db)"

section \<open>Sample inputs\<close>


definition sampleProject :: "string \<Rightarrow> InsertProject" where
  "sampleProject t =
    \<lparr>ip_title = t, ip_description = ''d'', ip_category = ''web'',
     ip_status = Undefined, ip_imageUrl = Undefined\<rparr>"

text \<open>The message of the scenario of the specification, stored at clock reading 5.\<close>

definition sampleMessage :: InsertMessage where
  "sampleMessage =
    \<lparr>im_name = ''Jan'', im_email = ''jan@x.nl'', im_subject = ''Vraag'', im_message = ''Hallo''\<rparr>"

definition oneMessage :: database where
  "oneMessage = snd (createMessage 5 sampleMessage empty_database)"

definition requestFor :: "int \<Rightarrow> jsvalue \<Rightarrow> request" where
  "requestFor n body = \<lparr>req_id = Num n, req_body = body, req_image = None\<rparr>"

text \<open>A request whose path parameter is no number, such as \<^verbatim>\<open>abc\<close>.\<close>

definition requestForText :: "jsvalue \<Rightarrow> request" where
  "requestForText body = \<lparr>req_id = NaN, req_body = body, req_image = None\<rparr>"

text \<open>A reply whose body names another message than the path does.\<close>

definition bodyWithMessageId :: jsvalue where
  "bodyWithMessageId = JObj [(''reply'', JStr ''Bedankt''), (''messageId'', JNum (Num 99))]"

text \<open>One project stored at clock reading 5, and an update that names an identifier and a creation timestamp of its own.\<close>

definition oneProject :: database where
  "oneProject = snd (createProject 5 (sampleProject ''a'') empty_database)"

definition bodyWithId :: jsvalue where
  "bodyWithId =
    JObj [(''id'', JNum (Num 99)), (''createdAt'', JStr ''2030-01-01''), (''title'', JStr ''new'')]"

text \<open>
  A valid project form and a valid product form, and the files they are sent with: a
  document, an image of six million bytes, an image of exactly 5 MB, a small image, and
  a small image under another field name.
\<close>

definition projectForm :: jsvalue where
  "projectForm =
    JObj [(''title'', JStr ''Huis''), (''description'', JStr ''Nieuwbouw''), (''category'', JStr ''architectuur'')]"

definition productForm :: jsvalue where
  "productForm =
    JObj [(''title'', JStr ''Workshop''), (''description'', JStr ''Een dag''), (''price'', JStr ''450'')]"

definition withImage :: "jsvalue \<Rightarrow> File \<Rightarrow> request" where
  "withImage body sent = \<lparr>req_id = NaN, req_body = body, req_image = Some sent\<rparr>"

definition pdfFile :: File where
  "pdfFile = \<lparr>file_fieldname = ''image'', file_mimetype = ''application/pdf'', file_size = 1000, file_filename = ''3f1c''\<rparr>"

definition largeImage :: File where
  "largeImage = \<lparr>file_fieldname = ''image'', file_mimetype = ''image/png'', file_size = 6000000, file_filename = ''77ab''\<rparr>"

definition limitImage :: File where
  "limitImage = \<lparr>file_fieldname = ''image'', file_mimetype = ''image/png'', file_size = 5242880, file_filename = ''5a5a''\<rparr>"

definition strayImage :: File where
  "strayImage = \<lparr>file_fieldname = ''photo'', file_mimetype = ''image/png'', file_size = 1000, file_filename = ''c0c0''\<rparr>"

definition smallImage :: File where
  "smallImage = \<lparr>file_fieldname = ''image'', file_mimetype = ''image/png'', file_size = 1000, file_filename = ''09de''\<rparr>"

text \<open>A database whose configuration row exists, and a body that leaves the company name out.\<close>

definition seeded :: database where
  "seeded = snd (updateSiteConfig defaultConfig empty_database)"

definition bodyWithoutName :: jsvalue where
  "bodyWithoutName = JObj [(''heroTitle'', JStr ''Hallo'')]"

definition bodyWithName :: jsvalue where
  "bodyWithName = JObj [(''companyName'', JStr ''Acme'')]"

section \<open>The configuration singleton\<close>

lemma getSiteConfig_cases:
  "getSiteConfig db = (case siteConfig db of [] \<Rightarrow> None | r # rest \<Rightarrow> Some r)"
  by (simp add: getSiteConfig_def first_row_def split: list.splits)

lemma updateSiteConfig_empty:
  "siteConfig db = [] \<Longrightarrow>
   updateSiteConfig config db =
     (Some (values_config (siteConfig_seq db + 1) config),
      db\<lparr>siteConfig := [values_config (siteConfig_seq db + 1) config],
         siteConfig_seq := siteConfig_seq db + 1\<rparr>)"
  by (simp add: updateSiteConfig_def getSiteConfig_cases Let_def)






lemma createProjects_siteConfig:
  "siteConfig (createProjects clock k ps db) = siteConfig db"
  by (induction ps arbitrary: k db) (simp_all add: createProject_def Let_def)

lemma createProducts_siteConfig:
  "siteConfig (createProducts clock k ps db) = siteConfig db"
  by (induction ps arbitrary: k db) (simp_all add: createProduct_def Let_def)

lemma initializeDefaults_siteConfig:
  "siteConfig (initializeDefaults clock db) =
     (case getSiteConfig db of
        None \<Rightarrow> siteConfig (snd (updateSiteConfig defaultConfig db))
      | Some existingConfig \<Rightarrow> siteConfig db)"
  by (simp add: initializeDefaults_def Let_def createProjects_siteConfig
        createProducts_siteConfig split: option.splits)





section \<open>Listing in creation order\<close>

lemma nulls_last_le: "nulls_last a \<le> nulls_last b \<longleftrightarrow> created_le a b"
  by (cases a; cases b) (simp_all add: nulls_last_def created_le_def less_eq_prod_def)

lemma orderBy_sorted:
  "sorted_wrt (\<lambda>a b. created_le (column a) (column b)) (orderBy column rows)"
proof -
  have "sorted (map (\<lambda>r. nulls_last (column r)) (orderBy column rows))"
    by (simp add: orderBy_def)
  then show ?thesis
    by (simp add: sorted_map nulls_last_le)
qed

lemma orderBy_mset: "mset (orderBy column rows) = mset rows"
  by (simp add: orderBy_def)

lemma createProjects_length:
  "length (projects (createProjects clock k ps db)) = length (projects db) + length ps"
  by (induction ps arbitrary: k db) (simp_all add: createProject_def Let_def)

lemma createProducts_length:
  "length (products (createProducts clock k ps db)) = length (products db) + length ps"
  by (induction ps arbitrary: k db) (simp_all add: createProduct_def Let_def)

text \<open>
  Claim C3. Whatever the table holds, and so after every sequence of insertions at
  whatever clock readings, \<^verbatim>\<open>GET /api/projects\<close> and \<^verbatim>\<open>GET /api/products\<close> answer
  200 with the stored rows (the same rows, each as often as stored) in ascending order of
  their creation timestamps; every row inserted is among them.
\<close>

theorem lists_ordered_by_createdAt:
  "sorted_wrt (\<lambda>a b. created_le (project_createdAt a) (project_createdAt b)) (getProjects db) \<and>
   mset (getProjects db) = mset (projects db) \<and>
   get_projects req db = (json (ProjectsJson (getProjects db)), db) \<and>
   length (getProjects (createProjects clock k ps db)) = length (projects db) + length ps \<and>
   sorted_wrt (\<lambda>a b. created_le (product_createdAt a) (product_createdAt b)) (getProducts db) \<and>
   mset (getProducts db) = mset (products db) \<and>
   get_products req db = (json (ProductsJson (getProducts db)), db) \<and>
   length (getProducts (createProducts clock k qs db)) = length (products db) + length qs"
proof -
  have "length (getProjects (createProjects clock k ps db)) =
        size (mset (projects (createProjects clock k ps db)))"
    by (simp add: getProjects_def orderBy_def)
  moreover have "length (getProducts (createProducts clock k qs db)) =
        size (mset (products (createProducts clock k qs db)))"
    by (simp add: getProducts_def orderBy_def)
  ultimately show ?thesis
    by (simp add: getProjects_def getProducts_def orderBy_sorted orderBy_mset
          get_projects_def get_products_def createProjects_length createProducts_length)
qed

text \<open>Three projects inserted at the clock readings 30, 10 and 20 are listed as second, third, first.\<close>

lemma getProjects_example:
  "map project_title
     (getProjects (createProjects (\<lambda>k. [30, 10, 20] ! k) 0
        [sampleProject ''a'', sampleProject ''b'', sampleProject ''c''] empty_database))
   = [''b'', ''c'', ''a'']"
  by (simp add: getProjects_def orderBy_def createProject_def values_project_def
        sampleProject_def empty_database_def nulls_last_def less_eq_prod_def Let_def)

section \<open>Marking a message as read\<close>

lemma filter_hit_nonempty:
  "n \<in> set (map key rows) \<Longrightarrow> 0 < length (filter (\<lambda>r. key r = n) rows)"
  by (induction rows) auto

lemma mark_twice:
  "map (\<lambda>m. if message_id m = n then m\<lparr>message_isRead := Some True\<rparr> else m)
     (map (\<lambda>m. if message_id m = n then m\<lparr>message_isRead := Some True\<rparr> else m) ms) =
   map (\<lambda>m. if message_id m = n then m\<lparr>message_isRead := Some True\<rparr> else m) ms"
  by (induction ms) auto

lemma mark_ids:
  "map message_id (map (\<lambda>m. if message_id m = n then m\<lparr>message_isRead := Some True\<rparr> else m) ms) =
   map message_id ms"
  by (induction ms) auto

lemma markMessageAsRead_result:
  "pg_integer i = Inr n \<Longrightarrow>
   markMessageAsRead i db =
     Inr (0 < length (filter (\<lambda>r. message_id r = n) (messages db)),
          db\<lparr>messages := map (\<lambda>m. if message_id m = n then m\<lparr>message_isRead := Some True\<rparr> else m)
                             (messages db)\<rparr>)"
  by (simp add: markMessageAsRead_def andThen_def Let_def)

text \<open>
  Claim C9. For the identifier of a stored message, \<^verbatim>\<open>markMessageAsRead\<close> returns true
  whatever the flag was; the new database differs from the old one in the \<^verbatim>\<open>isRead\<close>
  flag of the messages with that identifier only, which is true; a second call returns
  true again and changes nothing; \<^verbatim>\<open>PUT /api/messages/:id/read\<close> answers 200 both times.
\<close>

theorem markMessageAsRead_idempotent:
  assumes "pg_integer i = Inr n" and "n \<in> set (map message_id (messages db))"
  shows "\<exists>db'. markMessageAsRead i db = Inr (True, db') \<and>
           db' = db\<lparr>messages :=
                      map (\<lambda>m. if message_id m = n then m\<lparr>message_isRead := Some True\<rparr> else m)
                        (messages db)\<rparr> \<and>
           markMessageAsRead i db' = Inr (True, db') \<and>
           (req_id req = i \<longrightarrow>
              put_message_read req db = (json (Notice ''Message marked as read''), db') \<and>
              put_message_read req db' = (json (Notice ''Message marked as read''), db'))"
proof -
  let ?mark = "\<lambda>m. if message_id m = n then m\<lparr>message_isRead := Some True\<rparr> else m"
  let ?db' = "db\<lparr>messages := map ?mark (messages db)\<rparr>"
  have hit: "0 < length (filter (\<lambda>r. message_id r = n) (messages db))"
    using assms(2) by (rule filter_hit_nonempty)
  have once: "markMessageAsRead i db = Inr (True, ?db')"
    using markMessageAsRead_result[OF assms(1), of db] hit by simp
  have "n \<in> set (map message_id (messages ?db'))"
    using assms(2) by (simp add: mark_ids del: map_map)
  then have hit': "0 < length (filter (\<lambda>r. message_id r = n) (messages ?db'))"
    by (rule filter_hit_nonempty)
  have twice: "markMessageAsRead i ?db' = Inr (True, ?db')"
    using markMessageAsRead_result[OF assms(1), of ?db'] hit' mark_twice[of n "messages db"]
    by simp
  from once twice show ?thesis
    by (simp add: put_message_read_def)
qed

theorem markMessageAsRead_idempotent_witness:
  "pg_integer (Num 1) = Inr 1 \<and> 1 \<in> set (map message_id (messages oneMessage)) \<and>
   map message_isRead (messages oneMessage) = [Some False] \<and>
   (\<exists>db'. markMessageAsRead (Num 1) oneMessage = Inr (True, db') \<and>
          map message_isRead (messages db') = [Some True] \<and>
          map message_subject (messages db') = [''Vraag''] \<and>
          markMessageAsRead (Num 1) db' = Inr (True, db'))"
proof -
  have a: "pg_integer (Num 1) = Inr 1" by simp
  have m: "messages oneMessage = [values_message 1 5 sampleMessage]"
    by (simp add: oneMessage_def createMessage_def empty_database_def Let_def)
  have b: "1 \<in> set (map message_id (messages oneMessage))"
    by (simp add: m values_message_def)
  from markMessageAsRead_idempotent[OF a b, of "requestFor 1 JUndefined"]
  obtain db' where
    "markMessageAsRead (Num 1) oneMessage = Inr (True, db')"
    "db' = oneMessage\<lparr>messages :=
        map (\<lambda>m. if message_id m = 1 then m\<lparr>message_isRead := Some True\<rparr> else m)
          (messages oneMessage)\<rparr>"
    "markMessageAsRead (Num 1) db' = Inr (True, db')"
    by blast
  then show ?thesis using a b
    by (simp add: m values_message_def sampleMessage_def)
qed

section \<open>Replies of a message\<close>

lemma replies_of_unknown:
  assumes "foreign_keys_hold db" and "n \<notin> set (map message_id (messages db))"
  shows "filter (\<lambda>r. reply_messageId r = Some n) (messageReplies db) = []"
proof -
  have "\<forall>r \<in> set (messageReplies db). reply_messageId r \<noteq> Some n"
    using assms
    by (auto simp: foreign_keys_hold_def list_all_iff references_message_def)
  then show ?thesis by (simp add: filter_empty_conv)
qed

lemma empty_database_foreign_keys: "foreign_keys_hold empty_database"
  by (simp add: foreign_keys_hold_def empty_database_def)

lemma foreign_keys_frame:
  assumes "set (map message_id (messages db)) \<subseteq> set (map message_id (messages db'))"
    and "messageReplies db' = messageReplies db"
    and "foreign_keys_hold db"
  shows "foreign_keys_hold db'"
proof -
  have "references_message db' m" if "references_message db m" for m
    using that assms(1) by (cases m) (auto simp: references_message_def)
  with assms(2,3) show ?thesis
    by (auto simp: foreign_keys_hold_def list_all_iff)
qed

lemma createMessage_foreign_keys:
  "foreign_keys_hold db \<Longrightarrow> foreign_keys_hold (snd (createMessage now message db))"
  by (rule foreign_keys_frame[of db]) (auto simp: createMessage_def Let_def)

lemma markMessageAsRead_foreign_keys:
  assumes "foreign_keys_hold db" and "markMessageAsRead i db = Inr (marked, db')"
  shows "foreign_keys_hold db'"
proof -
  from assms(2) obtain n where
    db': "db' = db\<lparr>messages := map (\<lambda>m. if message_id m = n then m\<lparr>message_isRead := Some True\<rparr> else m)
                             (messages db)\<rparr>"
    by (cases "pg_integer i") (auto simp: markMessageAsRead_def andThen_def Let_def)
  have "map message_id (messages db') = map message_id (messages db)"
    unfolding db' by (induction "messages db") auto
  with assms(1) show ?thesis
    by (intro foreign_keys_frame[of db db']) (simp_all add: db')
qed

lemma references_message_frame:
  "messages db' = messages db \<Longrightarrow> references_message db' m = references_message db m"
  by (cases m) (simp_all add: references_message_def)

lemma createMessageReply_foreign_keys:
  assumes "foreign_keys_hold db"
  shows "foreign_keys_hold (snd (createMessageReply now reply db))"
proof (cases "reply_message_id (ir_messageId reply)")
  case (Inl e)
  with assms show ?thesis by (simp add: createMessageReply_def)
next
  case (Inr m)
  let ?next = "messageReplies_seq db + 1"
  show ?thesis
  proof (cases "references_message db m")
    case True
    let ?db' = "db\<lparr>messageReplies := messageReplies db @ [values_reply ?next now m reply],
                   messageReplies_seq := ?next\<rparr>"
    have frame: "references_message ?db' k = references_message db k" for k
      by (rule references_message_frame) simp
    have created: "reply_messageId (values_reply ?next now m reply) = m"
      by (simp add: values_reply_def)
    have "foreign_keys_hold ?db'"
      using assms True
      by (simp add: foreign_keys_hold_def frame created)
    with Inr True show ?thesis
      by (simp add: createMessageReply_def Let_def)
  next
    case False
    have "foreign_keys_hold (db\<lparr>messageReplies_seq := ?next\<rparr>)"
      by (rule foreign_keys_frame[of db]) (simp_all add: assms)
    with Inr False show ?thesis
      by (simp add: createMessageReply_def Let_def)
  qed
qed

lemma other_routes_keep_messages:
  "r \<noteq> POST_messages \<Longrightarrow> r \<noteq> PUT_message_read \<Longrightarrow> r \<noteq> POST_message_replies \<Longrightarrow>
   messages (snd (handle onError now r req db)) = messages db \<and>
   messageReplies (snd (handle onError now r req db)) = messageReplies db"
  by (cases r)
     (auto simp: get_config_def put_config_def get_projects_def get_project_def
        post_projects_def put_project_def delete_project_def get_products_def
        get_product_def post_products_def put_product_def delete_product_def
        get_messages_def get_message_def get_message_replies_def
        updateSiteConfig_def createProject_def updateProject_def deleteProject_def
        createProduct_def updateProduct_def deleteProduct_def andThen_def Let_def
        split: sum.splits option.splits prod.splits if_splits)

lemma handle_foreign_keys:
  assumes "foreign_keys_hold db"
  shows "foreign_keys_hold (snd (handle onError now r req db))"
proof -
  consider "r = POST_messages" | "r = PUT_message_read" | "r = POST_message_replies"
    | "r \<noteq> POST_messages" "r \<noteq> PUT_message_read" "r \<noteq> POST_message_replies"
    by blast
  then show ?thesis
  proof cases
    case 1
    with assms createMessage_foreign_keys[OF assms] show ?thesis
      by (auto simp: post_messages_def split: sum.splits prod.splits) (metis snd_conv)
  next
    case 2
    with assms markMessageAsRead_foreign_keys[OF assms] show ?thesis
      by (auto simp: put_message_read_def split: sum.splits prod.splits)
  next
    case 3
    with assms createMessageReply_foreign_keys[OF assms] show ?thesis
      by (auto simp: post_message_replies_def Let_def split: sum.splits prod.splits)
         (metis snd_conv)+
  next
    case 4
    from other_routes_keep_messages[OF 4] assms show ?thesis
      by (intro foreign_keys_frame[of db "snd (handle onError now r req db)"]) simp_all
  qed
qed

text \<open>
  Claim C10, as amended. For an identifier that is an integer of the range of the
  identifier columns and matches no stored message, in a database that satisfies the
  declared foreign key (which the empty database does and every route preserves),
  \<^verbatim>\<open>GET /api/messages/:id/replies\<close> answers 200 with the empty list and changes nothing,
  where \<^verbatim>\<open>GET /api/messages/:id\<close> answers 404 for the same identifier. The replies
  route does not look the message up: its answer is the same whatever the table of
  messages holds.
\<close>

theorem replies_of_unknown_message:
  assumes "pg_integer (req_id req) = Inr n"
    and "n \<notin> set (map message_id (messages db))"
    and "foreign_keys_hold db"
  shows "getMessageReplies (req_id req) db = Inr [] \<and>
         get_message_replies req db = (json (RepliesJson []), db) \<and>
         res_status (fst (get_message_replies req db)) = 200 \<and>
         get_message req db = (status_json 404 ''Message not found'', db) \<and>
         fst (get_message_replies req (db\<lparr>messages := stored\<rparr>)) = fst (get_message_replies req db)"
proof -
  have none: "filter (\<lambda>r. reply_messageId r = Some n) (messageReplies db) = []"
    using assms(3) assms(2) by (rule replies_of_unknown)
  have replies: "getMessageReplies (req_id req) db = Inr []"
    using assms(1) none by (simp add: getMessageReplies_def andThen_def orderBy_def)
  have "filter (\<lambda>r. message_id r = n) (messages db) = []"
    using assms(2) by (auto simp: filter_empty_conv)
  then have message: "getMessage (req_id req) db = Inr None"
    using assms(1) by (simp add: getMessage_def andThen_def first_row_def)
  have "getMessageReplies (req_id req) (db\<lparr>messages := stored\<rparr>) = getMessageReplies (req_id req) db"
    by (simp add: getMessageReplies_def)
  then have blind: "fst (get_message_replies req (db\<lparr>messages := stored\<rparr>)) =
      fst (get_message_replies req db)"
    by (simp add: get_message_replies_def split: sum.splits)
  from replies message blind show ?thesis
    by (simp add: get_message_replies_def get_message_def json_def)
qed

theorem replies_of_unknown_message_witness:
  "pg_integer (req_id (requestFor 7 JUndefined)) = Inr 7 \<and>
   7 \<notin> set (map message_id (messages oneMessage)) \<and>
   foreign_keys_hold oneMessage \<and>
   get_message_replies (requestFor 7 JUndefined) oneMessage = (json (RepliesJson []), oneMessage)"
proof -
  have a: "pg_integer (req_id (requestFor 7 JUndefined)) = Inr 7"
    by (simp add: requestFor_def)
  have m: "messages oneMessage = [values_message 1 5 sampleMessage]"
      "messageReplies oneMessage = []"
    by (simp_all add: oneMessage_def createMessage_def empty_database_def Let_def)
  have b: "7 \<notin> set (map message_id (messages oneMessage))"
    by (simp add: m values_message_def)
  have c: "foreign_keys_hold oneMessage"
    by (simp add: foreign_keys_hold_def m)
  from replies_of_unknown_message[OF a b c] a b c show ?thesis by simp
qed

text \<open>
  The claim as stated fails. A path parameter that is no number, or a number beyond the
  range of the identifier columns, matches no stored message, and the route answers 500:
  the database rejects the statement and the handler's \<^verbatim>\<open>catch\<close> answers.
\<close>

theorem replies_of_unknown_message_counterexample:
  "4294967297 \<notin> set (map message_id (messages oneMessage)) \<and>
   res_status (fst (get_message_replies (requestForText JUndefined) oneMessage)) = 500 \<and>
   res_status (fst (get_message_replies (requestFor 4294967297 JUndefined) oneMessage)) = 500 \<and>
   res_status (fst (get_message_replies (requestForText JUndefined) empty_database)) = 500"
  by (simp add: requestFor_def requestForText_def get_message_replies_def getMessageReplies_def
        andThen_def status_json_def oneMessage_def createMessage_def values_message_def
        empty_database_def Let_def)

section \<open>The message of a reply\<close>

lemma property_with_key: "property (with_key key v obj) key = v"
proof -
  have "map_of (filter (\<lambda>kv. fst kv \<noteq> key) obj) key = None"
    by (simp add: map_of_eq_None_iff image_iff)
  then show ?thesis
    by (simp add: property_def with_key_def map_add_def)
qed

lemma replySchema_messageId:
  assumes "insertMessageReplySchema (JObj (with_key ''messageId'' (JNum i) obj)) = Inr replyData"
  shows "\<exists>n. i = Num n \<and> ir_messageId replyData = Supplied (Some (Num n))"
proof (cases i)
  case NaN
  with assms show ?thesis
    by (simp add: insertMessageReplySchema_def property_with_key andThen_def)
next
  case (Num n)
  with assms show ?thesis
    by (auto simp: insertMessageReplySchema_def property_with_key andThen_def
          split: sum.splits)
qed

lemma createMessageReply_messageId:
  assumes "createMessageReply now replyData db = (Inr reply, db')"
    and "ir_messageId replyData = Supplied (Some (Num n))"
  shows "reply_messageId reply = Some n \<and> messageReplies db' = messageReplies db @ [reply]"
  using assms
  by (auto simp: createMessageReply_def andThen_def values_reply_def Let_def
        split: sum.splits if_splits)

text \<open>
  Claim C8. Whenever \<^verbatim>\<open>POST /api/messages/:id/replies\<close> answers with a reply, whatever
  the body held under \<^verbatim>\<open>messageId\<close>, the path parameter is an integer, the reply's
  \<^verbatim>\<open>messageId\<close> is that integer, the status is 200 and the reply is the one row added.
\<close>

theorem reply_messageId_is_path_parameter:
  assumes "post_message_replies now req db = (res, db')"
    and "res_json res = ReplyJson reply"
  shows "\<exists>n. req_id req = Num n \<and> reply_messageId reply = Some n \<and>
           res_status res = 200 \<and> messageReplies db' = messageReplies db @ [reply]"
proof -
  let ?input = "JObj (with_key ''messageId'' (JNum (req_id req)) (spread (req_body req)))"
  from assms obtain replyData where
    parsed: "insertMessageReplySchema ?input = Inr replyData"
    by (cases "insertMessageReplySchema ?input")
       (auto simp: post_message_replies_def Let_def status_json_def)
  with assms have created: "createMessageReply now replyData db = (Inr reply, db')"
      and ok: "res_status res = 200"
    by (auto simp: post_message_replies_def Let_def status_json_def json_def
          split: prod.splits sum.splits)
  from replySchema_messageId[OF parsed] obtain n where
    n: "req_id req = Num n" "ir_messageId replyData = Supplied (Some (Num n))"
    by blast
  from createMessageReply_messageId[OF created n(2)] n(1) ok show ?thesis
    by blast
qed

theorem reply_messageId_is_path_parameter_witness:
  "res_json (fst (post_message_replies 9 (requestFor 1 bodyWithMessageId) oneMessage)) =
     ReplyJson \<lparr>reply_id = 1, reply_messageId = Some 1, reply_reply = ''Bedankt'',
                reply_isFromAdmin = Some True, reply_createdAt = Some 9\<rparr> \<and>
   map reply_messageId
     (messageReplies (snd (post_message_replies 9 (requestFor 1 bodyWithMessageId) oneMessage))) =
     [Some 1]"
proof -
  let ?reply = "\<lparr>reply_id = 1, reply_messageId = Some 1, reply_reply = ''Bedankt'',
                reply_isFromAdmin = Some True, reply_createdAt = Some 9\<rparr>"
  have run: "res_json (fst (post_message_replies 9 (requestFor 1 bodyWithMessageId) oneMessage)) =
      ReplyJson ?reply"
    by (simp add: post_message_replies_def requestFor_def bodyWithMessageId_def
          insertMessageReplySchema_def property_def with_key_def andThen_def
          createMessageReply_def references_message_def values_reply_def assign_def
          oneMessage_def createMessage_def values_message_def empty_database_def
          json_def Let_def)
  obtain res db' where
    r: "post_message_replies 9 (requestFor 1 bodyWithMessageId) oneMessage = (res, db')"
    by (cases "post_message_replies 9 (requestFor 1 bodyWithMessageId) oneMessage")
  with run have j: "res_json res = ReplyJson ?reply" by simp
  from reply_messageId_is_path_parameter[OF r j]
  have "messageReplies db' = messageReplies oneMessage @ [?reply]" by blast
  moreover have "messageReplies oneMessage = []"
    by (simp add: oneMessage_def createMessage_def empty_database_def Let_def)
  ultimately show ?thesis using run r by simp
qed

section \<open>Updates keep the identifier and the creation timestamp\<close>

lemma first_row_in_set: "first_row rows = Some r \<Longrightarrow> r \<in> set rows"
  by (cases rows) (simp_all add: first_row_def)

lemma set_project_keeps:
  "project_id (set_project project row) = project_id row"
  "project_createdAt (set_project project row) = project_createdAt row"
  by (simp_all add: set_project_def)

lemma set_product_keeps:
  "product_id (set_product product row) = product_id row"
  "product_createdAt (set_product product row) = product_createdAt row"
  by (simp_all add: set_product_def)

lemma updateProject_keeps:
  assumes "updateProject i project db = Inr (row, db')"
  shows "map project_id (projects db') = map project_id (projects db) \<and>
         map project_createdAt (projects db') = map project_createdAt (projects db) \<and>
         (\<forall>new. row = Some new \<longrightarrow>
            (\<exists>old \<in> set (projects db). i = Num (project_id old) \<and>
               project_id new = project_id old \<and>
               project_createdAt new = project_createdAt old))"
proof -
  from assms obtain n where n: "pg_integer i = Inr n"
    by (cases "pg_integer i") (auto simp: updateProject_def andThen_def split: if_splits)
  then have i: "i = Num n"
    by (cases i) (auto split: if_splits)
  let ?rows = "map (\<lambda>r. if project_id r = n then set_project project r else r) (projects db)"
  from assms n have db': "db' = db\<lparr>projects := ?rows\<rparr>"
      and row: "row = first_row (filter (\<lambda>r. project_id r = n) ?rows)"
    by (auto simp: updateProject_def andThen_def Let_def split: if_splits)
  have ids: "map project_id ?rows = map project_id (projects db)"
    by (induction "projects db") (auto simp: set_project_keeps)
  have times: "map project_createdAt ?rows = map project_createdAt (projects db)"
    by (induction "projects db") (auto simp: set_project_keeps)
  have "\<exists>old \<in> set (projects db). i = Num (project_id old) \<and>
          project_id new = project_id old \<and> project_createdAt new = project_createdAt old"
    if "row = Some new" for new
  proof -
    from that row have "new \<in> set (filter (\<lambda>r. project_id r = n) ?rows)"
      by (intro first_row_in_set) simp
    then obtain old where "old \<in> set (projects db)" "project_id old = n"
        "new = set_project project old"
      by (auto split: if_splits simp: set_project_keeps)
    with i show ?thesis by (auto simp: set_project_keeps)
  qed
  with ids times db' show ?thesis by simp
qed

lemma updateProduct_keeps:
  assumes "updateProduct i product db = Inr (row, db')"
  shows "map product_id (products db') = map product_id (products db) \<and>
         map product_createdAt (products db') = map product_createdAt (products db) \<and>
         (\<forall>new. row = Some new \<longrightarrow>
            (\<exists>old \<in> set (products db). i = Num (product_id old) \<and>
               product_id new = product_id old \<and>
               product_createdAt new = product_createdAt old))"
proof -
  from assms obtain n where n: "pg_integer i = Inr n"
    by (cases "pg_integer i") (auto simp: updateProduct_def andThen_def split: if_splits)
  then have i: "i = Num n"
    by (cases i) (auto split: if_splits)
  let ?rows = "map (\<lambda>r. if product_id r = n then set_product product r else r) (products db)"
  from assms n have db': "db' = db\<lparr>products := ?rows\<rparr>"
      and row: "row = first_row (filter (\<lambda>r. product_id r = n) ?rows)"
    by (auto simp: updateProduct_def andThen_def Let_def split: if_splits)
  have ids: "map product_id ?rows = map product_id (products db)"
    by (induction "products db") (auto simp: set_product_keeps)
  have times: "map product_createdAt ?rows = map product_createdAt (products db)"
    by (induction "products db") (auto simp: set_product_keeps)
  have "\<exists>old \<in> set (products db). i = Num (product_id old) \<and>
          product_id new = product_id old \<and> product_createdAt new = product_createdAt old"
    if "row = Some new" for new
  proof -
    from that row have "new \<in> set (filter (\<lambda>r. product_id r = n) ?rows)"
      by (intro first_row_in_set) simp
    then obtain old where "old \<in> set (products db)" "product_id old = n"
        "new = set_product product old"
      by (auto split: if_splits simp: set_product_keeps)
    with i show ?thesis by (auto simp: set_product_keeps)
  qed
  with ids times db' show ?thesis by simp
qed

lemma put_project_keeps:
  "map project_id (projects (snd (put_project onError req db))) = map project_id (projects db) \<and>
   map project_createdAt (projects (snd (put_project onError req db))) =
     map project_createdAt (projects db)"
  using updateProject_keeps
  by (auto simp: put_project_def Let_def split: sum.splits option.splits prod.splits)

lemma put_product_keeps:
  "map product_id (products (snd (put_product onError req db))) = map product_id (products db) \<and>
   map product_createdAt (products (snd (put_product onError req db))) =
     map product_createdAt (products db)"
  using updateProduct_keeps
  by (auto simp: put_product_def Let_def split: sum.splits option.splits prod.splits)

text \<open>
  Claim C5. Every update of a project or a product that succeeds leaves, row by row, the
  identifiers and the creation timestamps of the table as they were, and the row it
  returns has the identifier and the creation timestamp of a stored row with the
  identifier asked for. So do \<^verbatim>\<open>PUT /api/projects/:id\<close> and \<^verbatim>\<open>PUT /api/products/:id\<close>
  for every request, whatever keys its body carries.
\<close>

theorem updates_keep_id_and_createdAt:
  "(\<forall>row db'. updateProject i project db = Inr (row, db') \<longrightarrow>
      map project_id (projects db') = map project_id (projects db) \<and>
      map project_createdAt (projects db') = map project_createdAt (projects db) \<and>
      (\<forall>new. row = Some new \<longrightarrow>
         (\<exists>old \<in> set (projects db). i = Num (project_id old) \<and>
            project_id new = project_id old \<and>
            project_createdAt new = project_createdAt old))) \<and>
   (\<forall>row db'. updateProduct i product db = Inr (row, db') \<longrightarrow>
      map product_id (products db') = map product_id (products db) \<and>
      map product_createdAt (products db') = map product_createdAt (products db) \<and>
      (\<forall>new. row = Some new \<longrightarrow>
         (\<exists>old \<in> set (products db). i = Num (product_id old) \<and>
            product_id new = product_id old \<and>
            product_createdAt new = product_createdAt old))) \<and>
   map project_id (projects (snd (put_project onError req db))) = map project_id (projects db) \<and>
   map project_createdAt (projects (snd (put_project onError req db))) =
     map project_createdAt (projects db) \<and>
   map product_id (products (snd (put_product onError req db))) = map product_id (products db) \<and>
   map product_createdAt (products (snd (put_product onError req db))) =
     map product_createdAt (products db)"
  using updateProject_keeps[of i project db] updateProduct_keeps[of i product db]
    put_project_keeps[of onError req db] put_product_keeps[of onError req db]
  by blast

theorem updates_keep_id_and_createdAt_witness:
  "map project_id (projects oneProject) = [1] \<and>
   map project_createdAt (projects oneProject) = [Some 5] \<and>
   map project_title (projects oneProject) = [''a''] \<and>
   res_status (fst (put_project finalhandler (requestFor 1 bodyWithId) oneProject)) = 200 \<and>
   map project_title
     (projects (snd (put_project finalhandler (requestFor 1 bodyWithId) oneProject))) = [''new''] \<and>
   map project_id
     (projects (snd (put_project finalhandler (requestFor 1 bodyWithId) oneProject))) = [1] \<and>
   map project_createdAt
     (projects (snd (put_project finalhandler (requestFor 1 bodyWithId) oneProject))) = [Some 5]"
proof -
  have before: "projects oneProject = [values_project 1 5 (sampleProject ''a'')]"
    by (simp add: oneProject_def createProject_def empty_database_def Let_def)
  have parsed: "insertProjectSchema_partial bodyWithId =
      Inr \<lparr>pp_title = Supplied ''new'', pp_description = Undefined, pp_category = Undefined,
           pp_status = Undefined, pp_imageUrl = Undefined\<rparr>"
    by (simp add: insertProjectSchema_partial_def bodyWithId_def property_def andThen_def)
  have run: "put_project finalhandler (requestFor 1 bodyWithId) oneProject =
      (json (ProjectJson ((values_project 1 5 (sampleProject ''a''))\<lparr>project_title := ''new''\<rparr>)),
       oneProject\<lparr>projects := [(values_project 1 5 (sampleProject ''a''))\<lparr>project_title := ''new''\<rparr>]\<rparr>)"
    by (simp add: put_project_def requestFor_def upload_single_def parsed updateProject_def
          project_values_to_set_def andThen_def before set_project_def assign_def first_row_def
          values_project_def Let_def)
  from updates_keep_id_and_createdAt[of "Num 1" undefined oneProject undefined finalhandler
      "requestFor 1 bodyWithId"]
  have "map project_id
          (projects (snd (put_project finalhandler (requestFor 1 bodyWithId) oneProject))) =
        map project_id (projects oneProject)"
    and "map project_createdAt
          (projects (snd (put_project finalhandler (requestFor 1 bodyWithId) oneProject))) =
        map project_createdAt (projects oneProject)"
    by blast+
  then show ?thesis
    by (simp add: before run values_project_def sampleProject_def json_def)
qed

section \<open>Identifiers that match no row\<close>

lemma no_row_filter: "n \<notin> set (map key rows) \<Longrightarrow> filter (\<lambda>r. key r = n) rows = []"
  by (induction rows) auto

lemma no_row_keep: "n \<notin> set (map key rows) \<Longrightarrow> filter (\<lambda>r. \<not> key r = n) rows = rows"
  by (induction rows) auto

lemma no_row_map:
  "n \<notin> set (map key rows) \<Longrightarrow> map (\<lambda>r. if key r = n then f r else r) rows = rows"
  by (induction rows) auto

lemma unknown_project:
  assumes "pg_integer i = Inr n" and "n \<notin> set (map project_id (projects db))"
  shows "getProject i db = Inr None"
    and "deleteProject i db = Inr (False, db)"
    and "project_values_to_set project \<Longrightarrow> updateProject i project db = Inr (None, db)"
    and "\<not> project_values_to_set project \<Longrightarrow> updateProject i project db = Inl NoValuesToSet"
  using assms
  by (simp_all add: getProject_def deleteProject_def updateProject_def andThen_def Let_def
        no_row_filter no_row_keep no_row_map first_row_def)

lemma unknown_product:
  assumes "pg_integer i = Inr n" and "n \<notin> set (map product_id (products db))"
  shows "getProduct i db = Inr None"
    and "deleteProduct i db = Inr (False, db)"
    and "product_values_to_set product \<Longrightarrow> updateProduct i product db = Inr (None, db)"
    and "\<not> product_values_to_set product \<Longrightarrow> updateProduct i product db = Inl NoValuesToSet"
  using assms
  by (simp_all add: getProduct_def deleteProduct_def updateProduct_def andThen_def Let_def
        no_row_filter no_row_keep no_row_map first_row_def)

lemma unknown_message:
  assumes "pg_integer i = Inr n" and "n \<notin> set (map message_id (messages db))"
  shows "getMessage i db = Inr None"
    and "markMessageAsRead i db = Inr (False, db)"
  using assms
  by (simp_all add: getMessage_def markMessageAsRead_def andThen_def Let_def
        no_row_filter no_row_map first_row_def)

lemma put_project_unknown:
  assumes "pg_integer (req_id req) = Inr n" and "n \<notin> set (map project_id (projects db))"
    and "upload_single (req_image req) = Inr sent"
  shows "put_project onError req db =
     (case insertProjectSchema_partial (req_body req) of
        Inl e \<Rightarrow> (status_json 400 ''Invalid project data'', db)
      | Inr parsed \<Rightarrow>
          if sent \<noteq> None \<or> project_values_to_set parsed
          then (status_json 404 ''Project not found'', db)
          else (status_json 400 ''Invalid project data'', db))"
proof (cases "insertProjectSchema_partial (req_body req)")
  case (Inl e)
  with assms(3) show ?thesis by (simp add: put_project_def)
next
  case (Inr parsed)
  show ?thesis
  proof (cases sent)
    case None
    with Inr assms(3) unknown_project(3,4)[OF assms(1,2), of parsed] show ?thesis
      by (cases "project_values_to_set parsed") (simp_all add: put_project_def)
  next
    case (Some f)
    have "project_values_to_set (parsed\<lparr>pp_imageUrl := Supplied (Some (uploads_url f))\<rparr>)"
      by (simp add: project_values_to_set_def)
    from unknown_project(3)[OF assms(1,2) this] Inr Some assms(3) show ?thesis
      by (simp add: put_project_def)
  qed
qed

lemma put_product_unknown:
  assumes "pg_integer (req_id req) = Inr n" and "n \<notin> set (map product_id (products db))"
    and "upload_single (req_image req) = Inr sent"
  shows "put_product onError req db =
     (case insertProductSchema_partial (req_body req) of
        Inl e \<Rightarrow> (status_json 400 ''Invalid product data'', db)
      | Inr parsed \<Rightarrow>
          if sent \<noteq> None \<or> product_values_to_set parsed
          then (status_json 404 ''Product not found'', db)
          else (status_json 400 ''Invalid product data'', db))"
proof (cases "insertProductSchema_partial (req_body req)")
  case (Inl e)
  with assms(3) show ?thesis by (simp add: put_product_def)
next
  case (Inr parsed)
  show ?thesis
  proof (cases sent)
    case None
    with Inr assms(3) unknown_product(3,4)[OF assms(1,2), of parsed] show ?thesis
      by (cases "product_values_to_set parsed") (simp_all add: put_product_def)
  next
    case (Some f)
    have "product_values_to_set (parsed\<lparr>pd_imageUrl := Supplied (Some (uploads_url f))\<rparr>)"
      by (simp add: product_values_to_set_def)
    from unknown_product(3)[OF assms(1,2) this] Inr Some assms(3) show ?thesis
      by (simp add: put_product_def)
  qed
qed

text \<open>
  Claim C2, as amended. For an identifier that is an integer of the range of the
  identifier columns and matches no stored row, the by-id reads of projects, products and
  messages, the deletes of projects and products and \<^verbatim>\<open>PUT /api/messages/:id/read\<close>
  answer 404 and change nothing. So do \<^verbatim>\<open>PUT /api/projects/:id\<close> and
  \<^verbatim>\<open>PUT /api/products/:id\<close> when the upload is accepted, the body passes the partial
  schema and the request supplies a field or a file.
\<close>

theorem unknown_identifier:
  assumes "pg_integer (req_id req) = Inr n"
  shows
   "(n \<notin> set (map project_id (projects db)) \<longrightarrow>
       get_project req db = (status_json 404 ''Project not found'', db) \<and>
       delete_project req db = (status_json 404 ''Project not found'', db) \<and>
       (\<forall>sent parsed.
          upload_single (req_image req) = Inr sent \<and>
          insertProjectSchema_partial (req_body req) = Inr parsed \<and>
          (sent \<noteq> None \<or> project_values_to_set parsed) \<longrightarrow>
          put_project onError req db = (status_json 404 ''Project not found'', db))) \<and>
    (n \<notin> set (map product_id (products db)) \<longrightarrow>
       get_product req db = (status_json 404 ''Product not found'', db) \<and>
       delete_product req db = (status_json 404 ''Product not found'', db) \<and>
       (\<forall>sent parsed.
          upload_single (req_image req) = Inr sent \<and>
          insertProductSchema_partial (req_body req) = Inr parsed \<and>
          (sent \<noteq> None \<or> product_values_to_set parsed) \<longrightarrow>
          put_product onError req db = (status_json 404 ''Product not found'', db))) \<and>
    (n \<notin> set (map message_id (messages db)) \<longrightarrow>
       get_message req db = (status_json 404 ''Message not found'', db) \<and>
       put_message_read req db = (status_json 404 ''Message not found'', db))"
proof -
  have projects: "get_project req db = (status_json 404 ''Project not found'', db) \<and>
      delete_project req db = (status_json 404 ''Project not found'', db)"
    if "n \<notin> set (map project_id (projects db))"
    using unknown_project(1,2)[OF assms that]
    by (simp add: get_project_def delete_project_def)
  have put_projects: "put_project onError req db = (status_json 404 ''Project not found'', db)"
    if "n \<notin> set (map project_id (projects db))"
      and "upload_single (req_image req) = Inr sent"
      and "insertProjectSchema_partial (req_body req) = Inr parsed"
      and "sent \<noteq> None \<or> project_values_to_set parsed"
    for sent parsed
    using put_project_unknown[OF assms that(1,2), of onError] that(3,4) by auto
  have products: "get_product req db = (status_json 404 ''Product not found'', db) \<and>
      delete_product req db = (status_json 404 ''Product not found'', db)"
    if "n \<notin> set (map product_id (products db))"
    using unknown_product(1,2)[OF assms that]
    by (simp add: get_product_def delete_product_def)
  have put_products: "put_product onError req db = (status_json 404 ''Product not found'', db)"
    if "n \<notin> set (map product_id (products db))"
      and "upload_single (req_image req) = Inr sent"
      and "insertProductSchema_partial (req_body req) = Inr parsed"
      and "sent \<noteq> None \<or> product_values_to_set parsed"
    for sent parsed
    using put_product_unknown[OF assms that(1,2), of onError] that(3,4) by auto
  have messages: "get_message req db = (status_json 404 ''Message not found'', db) \<and>
      put_message_read req db = (status_json 404 ''Message not found'', db)"
    if "n \<notin> set (map message_id (messages db))"
    using unknown_message[OF assms that]
    by (simp add: get_message_def put_message_read_def)
  from projects put_projects products put_products messages
  show ?thesis by blast
qed

theorem unknown_identifier_witness:
  "pg_integer (req_id (requestFor 7 bodyWithId)) = Inr 7 \<and>
   7 \<notin> set (map project_id (projects oneProject)) \<and>
   upload_single (req_image (requestFor 7 bodyWithId)) = Inr None \<and>
   res_status (fst (get_project (requestFor 7 bodyWithId) oneProject)) = 404 \<and>
   res_status (fst (delete_project (requestFor 7 bodyWithId) oneProject)) = 404 \<and>
   put_project finalhandler (requestFor 7 bodyWithId) oneProject =
     (status_json 404 ''Project not found'', oneProject)"
proof -
  let ?parsed = "\<lparr>pp_title = Supplied ''new'', pp_description = Undefined, pp_category = Undefined,
           pp_status = Undefined, pp_imageUrl = Undefined\<rparr>"
  have a: "pg_integer (req_id (requestFor 7 bodyWithId)) = Inr 7"
    by (simp add: requestFor_def)
  have b: "7 \<notin> set (map project_id (projects oneProject))"
    by (simp add: oneProject_def createProject_def values_project_def empty_database_def Let_def)
  have c: "upload_single (req_image (requestFor 7 bodyWithId)) = Inr None"
    by (simp add: requestFor_def upload_single_def)
  have d: "insertProjectSchema_partial (req_body (requestFor 7 bodyWithId)) = Inr ?parsed"
    by (simp add: insertProjectSchema_partial_def bodyWithId_def requestFor_def property_def
          andThen_def)
  have e: "project_values_to_set ?parsed"
    by (simp add: project_values_to_set_def)
  from unknown_identifier[OF a, of oneProject finalhandler] b c d e
  have "get_project (requestFor 7 bodyWithId) oneProject =
          (status_json 404 ''Project not found'', oneProject)"
    and "delete_project (requestFor 7 bodyWithId) oneProject =
          (status_json 404 ''Project not found'', oneProject)"
    and "put_project finalhandler (requestFor 7 bodyWithId) oneProject =
          (status_json 404 ''Project not found'', oneProject)"
    by blast+
  with a b c show ?thesis
    by (simp add: status_json_def)
qed

text \<open>
  The claim as stated fails. A path parameter that is no number, or a number beyond the
  range of the identifier columns, matches no row, and the by-id read, the delete and the
  marking are answered 500: the database rejects the statement and the handler's
  \<^verbatim>\<open>catch\<close> answers. An update of a project that does not exist, sent with nothing to
  set, is answered 400.
\<close>

theorem unknown_identifier_counterexample:
  "res_status (fst (get_project (requestForText JUndefined) empty_database)) = 500 \<and>
   res_status (fst (delete_project (requestForText JUndefined) empty_database)) = 500 \<and>
   res_status (fst (get_product (requestForText JUndefined) empty_database)) = 500 \<and>
   res_status (fst (delete_product (requestForText JUndefined) empty_database)) = 500 \<and>
   res_status (fst (get_message (requestForText JUndefined) empty_database)) = 500 \<and>
   res_status (fst (put_message_read (requestForText JUndefined) empty_database)) = 500 \<and>
   res_status (fst (get_project (requestFor 4294967297 JUndefined) empty_database)) = 500 \<and>
   res_status (fst (put_project finalhandler (requestFor 999 (JObj [])) empty_database)) = 400"
  by (simp add: requestFor_def requestForText_def empty_database_def
        get_project_def delete_project_def get_product_def delete_product_def
        get_message_def put_message_read_def
        getProject_def deleteProject_def getProduct_def deleteProduct_def
        getMessage_def markMessageAsRead_def
        put_project_def upload_single_def
        insertProjectSchema_partial_def property_def andThen_def updateProject_def
        project_values_to_set_def status_json_def)

section \<open>Rejected uploads\<close>

lemma upload_single_rejects:
  assumes "\<not> prefix ''image/'' (file_mimetype sent) \<or> fileSize < file_size sent"
  shows "upload_single (Some sent) =
     Inl (if file_fieldname sent \<noteq> ''image'' then LimitUnexpectedFile
          else if prefix ''image/'' (file_mimetype sent) then LimitFileSize
          else OnlyImageFilesAllowed)"
  using assms by (auto simp: upload_single_def fileFilter_def andThen_def)

text \<open>
  Claim C4. What the code does with a request to \<^verbatim>\<open>POST /api/projects\<close> or
  \<^verbatim>\<open>POST /api/products\<close> whose file is not an image, or is larger than 5 MB: the upload
  middleware rejects it, the handler does not run and the database is unchanged, as the
  claim says; but the response is not the handler's 400: it is whatever the application
  answers to the middleware's error.
\<close>

theorem rejected_upload:
  assumes "req_image req = Some sent"
    and "\<not> prefix ''image/'' (file_mimetype sent) \<or> 5 * 1024 * 1024 < file_size sent"
  shows "\<exists>err. upload_single (req_image req) = Inl err \<and>
           (err = LimitUnexpectedFile \<or> err = OnlyImageFilesAllowed \<or> err = LimitFileSize) \<and>
           post_projects onError now req db = (onError err, db) \<and>
           post_products onError now req db = (onError err, db)"
proof -
  let ?err = "if file_fieldname sent \<noteq> ''image'' then LimitUnexpectedFile
          else if prefix ''image/'' (file_mimetype sent) then LimitFileSize
          else OnlyImageFilesAllowed"
  from assms(2) have "\<not> prefix ''image/'' (file_mimetype sent) \<or> fileSize < file_size sent"
    by (simp add: fileSize_def)
  from upload_single_rejects[OF this] assms(1)
  have rejected: "upload_single (req_image req) = Inl ?err" by simp
  then have "post_projects onError now req db = (onError ?err, db)"
      "post_products onError now req db = (onError ?err, db)"
    by (simp_all add: post_projects_def post_products_def)
  with rejected show ?thesis by auto
qed

theorem rejected_upload_witness:
  "req_image (withImage projectForm pdfFile) = Some pdfFile \<and>
   \<not> prefix ''image/'' (file_mimetype pdfFile) \<and>
   post_projects finalhandler 9 (withImage projectForm pdfFile) oneProject =
     (finalhandler OnlyImageFilesAllowed, oneProject) \<and>
   post_products finalhandler 9 (withImage productForm pdfFile) oneProject =
     (finalhandler OnlyImageFilesAllowed, oneProject)"
proof -
  have a: "req_image (withImage projectForm pdfFile) = Some pdfFile"
      "req_image (withImage productForm pdfFile) = Some pdfFile"
    by (simp_all add: withImage_def)
  have b: "\<not> prefix ''image/'' (file_mimetype pdfFile)"
    by (simp add: pdfFile_def)
  then have b': "\<not> prefix ''image/'' (file_mimetype pdfFile) \<or> 5 * 1024 * 1024 < file_size pdfFile"
    by simp
  have c: "upload_single (req_image (withImage projectForm pdfFile)) = Inl OnlyImageFilesAllowed"
      "upload_single (req_image (withImage productForm pdfFile)) = Inl OnlyImageFilesAllowed"
    by (simp_all add: withImage_def pdfFile_def upload_single_def fileFilter_def andThen_def)
  from rejected_upload[OF a(1) b', of finalhandler 9 oneProject]
    rejected_upload[OF a(2) b', of finalhandler 9 oneProject]
    c a b
  show ?thesis by auto
qed

text \<open>
  With the framework's own error handling the document, the image of six million bytes,
  the image of exactly 5 MB and the image under another field name are answered 500 and
  leave the tables empty, where the same form is answered 200 with a small image and a
  form that fails the schema is answered 400 by the handler.
\<close>

lemma rejected_upload_statuses:
  "res_status (fst (post_projects finalhandler 9 (withImage projectForm pdfFile) empty_database)) = 500 \<and>
   projects (snd (post_projects finalhandler 9 (withImage projectForm pdfFile) empty_database)) = [] \<and>
   res_status (fst (post_projects finalhandler 9 (withImage projectForm largeImage) empty_database)) = 500 \<and>
   res_status (fst (post_projects finalhandler 9 (withImage projectForm limitImage) empty_database)) = 500 \<and>
   res_status (fst (post_projects finalhandler 9 (withImage projectForm strayImage) empty_database)) = 500 \<and>
   res_status (fst (post_products finalhandler 9 (withImage productForm pdfFile) empty_database)) = 500 \<and>
   products (snd (post_products finalhandler 9 (withImage productForm pdfFile) empty_database)) = [] \<and>
   res_status (fst (post_projects finalhandler 9 (withImage projectForm smallImage) empty_database)) = 200 \<and>
   res_status (fst (post_projects finalhandler 9 (withImage (JObj []) smallImage) empty_database)) = 400"
  by (simp add: post_projects_def post_products_def withImage_def projectForm_def productForm_def
        pdfFile_def largeImage_def limitImage_def strayImage_def smallImage_def
        upload_single_def fileFilter_def fileSize_def
        andThen_def finalhandler_def insertProjectSchema_def property_def createProject_def
        empty_database_def json_def status_json_def Let_def)

section \<open>The body of a configuration update\<close>

lemma config_columns_all: "c \<in> set config_columns"
  by (cases c) (simp_all add: config_columns_def)

lemma accepts_optional_string:
  "accepts (z_optional z_string) v \<longleftrightarrow> v = JUndefined \<or> (\<exists>s. v = JStr s)"
  by (cases v) (simp_all add: accepts_def andThen_def)

lemma accepts_insertSiteConfigSchema:
  "accepts insertSiteConfigSchema input \<longleftrightarrow>
     (\<exists>obj. input = JObj obj \<and> (\<exists>name. property obj ''companyName'' = JStr name) \<and>
        (\<forall>c. property obj (column_key c) = JUndefined \<or>
             (\<exists>s. property obj (column_key c) = JStr s)))"
proof (cases input)
  case (JObj obj)
  have cols: "list_all (\<lambda>c. accepts (z_optional z_string) (property obj (column_key c))) config_columns
      \<longleftrightarrow> (\<forall>c. property obj (column_key c) = JUndefined \<or> (\<exists>s. property obj (column_key c) = JStr s))"
    using config_columns_all by (auto simp: list_all_iff accepts_optional_string)
  show ?thesis
  proof (cases "property obj ''companyName''")
    case (JStr name)
    with JObj cols show ?thesis
      by (simp add: insertSiteConfigSchema_def andThen_def accepts_def)
  qed (simp_all add: JObj insertSiteConfigSchema_def andThen_def accepts_def)
qed (simp_all add: insertSiteConfigSchema_def accepts_def)

text \<open>
  Claim C6, as amended. \<^verbatim>\<open>PUT /api/config\<close> accepts exactly the bodies that are objects
  with a string under \<^verbatim>\<open>companyName\<close> and, under every other column, nothing or a
  string. It answers 200 to those and 400 to the others, which leave the database as it
  was; the database plays no part in the decision, so the company name is required also
  when a row exists.
\<close>

theorem put_config_requires_companyName:
  "(accepts insertSiteConfigSchema (req_body req) \<longleftrightarrow>
      (\<exists>obj. req_body req = JObj obj \<and> (\<exists>name. property obj ''companyName'' = JStr name) \<and>
         (\<forall>c. property obj (column_key c) = JUndefined \<or>
              (\<exists>s. property obj (column_key c) = JStr s)))) \<and>
   (accepts insertSiteConfigSchema (req_body req) \<longrightarrow>
      res_status (fst (put_config req db)) = 200) \<and>
   (\<not> accepts insertSiteConfigSchema (req_body req) \<longrightarrow>
      put_config req db = (status_json 400 ''Invalid configuration data'', db))"
proof -
  have "res_status (fst (put_config req db)) = 200"
    if "accepts insertSiteConfigSchema (req_body req)"
    using that
    by (auto simp: put_config_def accepts_def json_def split: sum.splits prod.splits)
  moreover have "put_config req db = (status_json 400 ''Invalid configuration data'', db)"
    if "\<not> accepts insertSiteConfigSchema (req_body req)"
    using that
    by (auto simp: put_config_def accepts_def split: sum.splits)
  ultimately show ?thesis
    using accepts_insertSiteConfigSchema[of "req_body req"] by blast
qed

theorem put_config_requires_companyName_witness:
  "accepts insertSiteConfigSchema (req_body (requestFor 0 bodyWithName)) \<and>
   res_status (fst (put_config (requestFor 0 bodyWithName) seeded)) = 200 \<and>
   res_status (fst (put_config (requestFor 0 bodyWithName) empty_database)) = 200 \<and>
   \<not> accepts insertSiteConfigSchema (req_body (requestFor 0 bodyWithoutName)) \<and>
   put_config (requestFor 0 bodyWithoutName) empty_database =
     (status_json 400 ''Invalid configuration data'', empty_database)"
proof -
  have yes: "accepts insertSiteConfigSchema (req_body (requestFor 0 bodyWithName))"
    by (simp add: requestFor_def bodyWithName_def insertSiteConfigSchema_def property_def
          andThen_def accepts_def config_columns_def)
  have no: "\<not> accepts insertSiteConfigSchema (req_body (requestFor 0 bodyWithoutName))"
    by (simp add: requestFor_def bodyWithoutName_def insertSiteConfigSchema_def property_def
          andThen_def accepts_def)
  from put_config_requires_companyName[of "requestFor 0 bodyWithName" seeded]
    put_config_requires_companyName[of "requestFor 0 bodyWithName" empty_database]
    put_config_requires_companyName[of "requestFor 0 bodyWithoutName" empty_database]
    yes no
  show ?thesis by blast
qed

text \<open>
  The claim as stated fails: with a configuration row stored, a body that omits the
  company name is answered 400, and the row keeps its name.
\<close>

theorem put_config_requires_companyName_counterexample:
  "map companyName (siteConfig seeded) = [''Voorbeeld Bedrijf BV''] \<and>
   res_status (fst (put_config (requestFor 0 bodyWithoutName) seeded)) = 400 \<and>
   map companyName (siteConfig (snd (put_config (requestFor 0 bodyWithoutName) seeded))) =
     [''Voorbeeld Bedrijf BV'']"
proof -
  have rows: "map companyName (siteConfig seeded) = [''Voorbeeld Bedrijf BV'']"
    by (simp add: seeded_def updateSiteConfig_def getSiteConfig_def first_row_def
          empty_database_def values_config_def defaultConfig_def Let_def)
  have "put_config (requestFor 0 bodyWithoutName) seeded =
      (status_json 400 ''Invalid configuration data'', seeded)"
    by (simp add: put_config_def requestFor_def bodyWithoutName_def insertSiteConfigSchema_def
          property_def andThen_def)
  with rows show ?thesis by (simp add: status_json_def)
qed

section \<open>Where the configuration row comes from\<close>

text \<open>
  Claim C7, as amended. Reading the configuration changes nothing: with no row stored,
  \<^verbatim>\<open>getSiteConfig\<close> returns nothing and \<^verbatim>\<open>GET /api/config\<close> answers 200 without a
  configuration, and the table stays empty. The row is created by \<^verbatim>\<open>initializeDefaults\<close>,
  which the constructor of the storage runs: after it \<^verbatim>\<open>getSiteConfig\<close> returns a
  configuration, the default one when the table was empty.
\<close>

theorem config_created_by_seeding:
  "snd (get_config req db) = db \<and>
   (siteConfig db = [] \<longrightarrow>
      getSiteConfig db = None \<and> get_config req db = (json (ConfigJson None), db) \<and>
      getSiteConfig (snd (get_config req db)) = None) \<and>
   (\<exists>config. getSiteConfig (initializeDefaults clock db) = Some config) \<and>
   (siteConfig db = [] \<longrightarrow>
      getSiteConfig (initializeDefaults clock db) =
        Some (values_config (siteConfig_seq db + 1) defaultConfig))"
proof -
  have read: "snd (get_config req db) = db"
    by (simp add: get_config_def)
  have absent: "getSiteConfig db = None \<and> get_config req db = (json (ConfigJson None), db) \<and>
      getSiteConfig (snd (get_config req db)) = None"
    if "siteConfig db = []"
    using that by (simp add: get_config_def getSiteConfig_cases)
  have default: "getSiteConfig (initializeDefaults clock db) =
      Some (values_config (siteConfig_seq db + 1) defaultConfig)"
    if "siteConfig db = []"
  proof -
    from that have "siteConfig (initializeDefaults clock db) =
        [values_config (siteConfig_seq db + 1) defaultConfig]"
      by (simp add: initializeDefaults_siteConfig getSiteConfig_cases updateSiteConfig_empty)
    then show ?thesis by (simp add: getSiteConfig_cases)
  qed
  have "\<exists>config. getSiteConfig (initializeDefaults clock db) = Some config"
  proof (cases "siteConfig db")
    case Nil
    with default show ?thesis by simp
  next
    case (Cons row rest)
    then have "siteConfig (initializeDefaults clock db) = row # rest"
      by (simp add: initializeDefaults_siteConfig getSiteConfig_cases)
    then show ?thesis by (simp add: getSiteConfig_cases)
  qed
  with read absent default show ?thesis by blast
qed

theorem config_created_by_seeding_witness:
  "siteConfig empty_database = [] \<and>
   map companyName (siteConfig (initializeDefaults (\<lambda>k. int k) empty_database)) =
     [''Voorbeeld Bedrijf BV''] \<and>
   map (\<lambda>row. config_text row fontFamily) (siteConfig (initializeDefaults (\<lambda>k. int k) empty_database)) =
     [Some ''Inter'']"
proof -
  have e: "siteConfig empty_database = []"
    by (simp add: empty_database_def)
  from config_created_by_seeding[of "requestFor 0 JUndefined" empty_database "\<lambda>k. int k"] e
  have "getSiteConfig (initializeDefaults (\<lambda>k. int k) empty_database) =
      Some (values_config (siteConfig_seq empty_database + 1) defaultConfig)"
    by blast
  moreover have "length (siteConfig (initializeDefaults (\<lambda>k. int k) empty_database)) = 1"
    using e by (simp add: initializeDefaults_siteConfig getSiteConfig_cases updateSiteConfig_empty)
  ultimately have "siteConfig (initializeDefaults (\<lambda>k. int k) empty_database) =
      [values_config (siteConfig_seq empty_database + 1) defaultConfig]"
    by (cases "siteConfig (initializeDefaults (\<lambda>k. int k) empty_database)")
       (simp_all add: getSiteConfig_cases)
  with e show ?thesis
    by (simp add: values_config_def defaultConfig_def assign_def)
qed

text \<open>
  The claim as stated fails: on the empty database the read returns nothing, the route
  answers 200 with no configuration, and no row has been created.
\<close>

theorem config_created_by_seeding_counterexample:
  "getSiteConfig empty_database = None \<and>
   res_status (fst (get_config (requestFor 0 JUndefined) empty_database)) = 200 \<and>
   res_json (fst (get_config (requestFor 0 JUndefined) empty_database)) = ConfigJson None \<and>
   siteConfig (snd (get_config (requestFor 0 JUndefined) empty_database)) = []"
  by (simp add: get_config_def getSiteConfig_def first_row_def empty_database_def json_def)

end
